theory Spec2Isabelle
  imports Main
begin

section \<open>Python strings as the source uses them\<close>

text \<open>
  Python strings are modelled as \<^typ>\<open>string\<close>. The source uses \<open>str.split(sep)\<close> with a
  one-character separator, \<open>sep.join(parts)\<close>, \<open>str.replace(old, new)\<close>, the format
  specifications \<open>{instance:03d}\<close> and \<open>{len(...)}\<close> of a non-negative integer, slicing
  \<open>[:-1]\<close> and indexing \<open>[-1]\<close>.
\<close>

text \<open>\<open>s.split(c)\<close>: cut at every occurrence of \<open>c\<close>; the result is never empty.\<close>

fun split_on :: "char \<Rightarrow> string \<Rightarrow> string list" where
  "split_on c [] = [[]]"
| "split_on c (x # xs) =
     (if x = c then [] # split_on c xs
      else (case split_on c xs of
              [] \<Rightarrow> [[x]]
            | w # ws \<Rightarrow> (x # w) # ws))"

text \<open>\<open>sep.join(parts)\<close>.\<close>

fun join :: "string \<Rightarrow> string list \<Rightarrow> string" where
  "join sep [] = []"
| "join sep [p] = p"
| "join sep (p # q # ps) = p @ sep @ join sep (q # ps)"

text \<open>\<open>s.replace(old, new)\<close>: every non-overlapping occurrence, scanning from the left.
  With an empty \<open>old\<close> Python puts \<open>new\<close> before every character and at the end.\<close>

function replace :: "string \<Rightarrow> string \<Rightarrow> string \<Rightarrow> string" where
  "replace old new [] = (if old = [] then new else [])"
| "replace old new (c # cs) =
     (if old = [] then new @ c # replace old new cs
      else if take (length old) (c # cs) = old
           then new @ replace old new (drop (length old) (c # cs))
           else c # replace old new cs)"
  by pat_completeness auto
termination
  by (relation "measure (\<lambda>(old, new, s). length s)") auto

text \<open>Decimal digits of a non-negative integer, as \<open>str(n)\<close> and \<open>{n}\<close> print them.\<close>

definition digit_char :: "nat \<Rightarrow> char" where
  "digit_char d = ''0123456789'' ! d"

function format_d :: "nat \<Rightarrow> string" where
  "format_d n = (if n < 10 then [digit_char n] else format_d (n div 10) @ [digit_char (n mod 10)])"
  by pat_completeness auto
termination
  by (relation "measure (\<lambda>n. n)") auto

declare format_d.simps [simp del]

text \<open>\<open>{n:03d}\<close>: the decimal digits, padded with zeros on the left to at least three
  characters; a number of four or more digits is printed in full.\<close>

definition format_03d :: "nat \<Rightarrow> string" where
  "format_03d n = replicate (3 - length (format_d n)) (CHR ''0'') @ format_d n"

section \<open>Exceptions and results\<close>

text \<open>
  The exceptions the two modules raise themselves (\<open>ValueError\<close>, with its message), the ones
  Python raises on the source's own expressions (\<open>TypeError\<close> on subscripting or iterating
  \<open>None\<close>, \<open>IndexError\<close> on \<open>[0]\<close> of an empty list), and whatever a host command
  raises (\<open>RuntimeError\<close>, with the host's message).
\<close>

datatype exn = ValueError string | TypeError | IndexError | RuntimeError string

text \<open>The apostrophe that the messages put around a name.\<close>

definition apos :: string where
  "apos = [CHR 0x27]"

section \<open>The host scene and the item framework, as the two modules call them\<close>

text \<open>
  Neither the host application (\<open>maya.cmds\<close>) nor the item base class
  (\<open>mayafileitem.MayaFileItem\<close>) nor the studio packages (\<open>clustersFn\<close>, \<open>rigFn\<close>) are
  part of the two modules: every call into them is a field of the record below, over a
  scene state \<open>'s\<close> that is left abstract. Queries read the scene. Commands return the
  changed scene. \<open>cmds.parent\<close>, which the source calls inside and outside a \<open>try\<close>,
  returns the exception it raises. The two calls that \<open>group_prefab\<close> makes before its
  \<open>try\<close>, \<open>cmds.objExists\<close> and \<open>cmds.createNode\<close>, carry the message of the
  \<open>RuntimeError\<close> the host may raise on them: \<open>cmds_objExists_raises\<close> is that message
  for a name on which the existence query raises, and \<open>cmds_createNode\<close> returns either
  the message or the name of the node the host created. The search loop of
  \<open>get_namespace_from_cache\<close> is stated for names on which the existence query answers.
  A query that answers \<open>None\<close> for "nothing" (\<open>listConnections\<close>, \<open>listRelatives\<close>) is an
  \<open>option\<close>, since the source subscripts and iterates the answer. \<open>getAttr\<close> gives the
  value as the f-string prints it.
\<close>

record 's host =
  cmds_objExists :: "'s \<Rightarrow> string \<Rightarrow> bool"
  cmds_objExists_raises :: "'s \<Rightarrow> string \<Rightarrow> string option"
  cmds_nodeType :: "'s \<Rightarrow> string \<Rightarrow> string"
  cmds_attributeQuery :: "'s \<Rightarrow> string \<Rightarrow> string \<Rightarrow> bool"
  cmds_getAttr :: "'s \<Rightarrow> string \<Rightarrow> string"
  cmds_listConnections :: "'s \<Rightarrow> string \<Rightarrow> string list option"
  cmds_listRelatives :: "'s \<Rightarrow> string \<Rightarrow> string list option"
  cmds_ls_selection :: "'s \<Rightarrow> string \<Rightarrow> string list"
  cmds_namespace_exists :: "'s \<Rightarrow> string \<Rightarrow> bool"
  cmds_namespaceInfo :: "'s \<Rightarrow> string list"
  cmds_namespace_setNamespace :: "string \<Rightarrow> 's \<Rightarrow> 's"
  cmds_namespace_add :: "string \<Rightarrow> 's \<Rightarrow> 's"
  cmds_namespace_mv :: "string \<Rightarrow> string \<Rightarrow> 's \<Rightarrow> 's"
  cmds_namespace_rm :: "string \<Rightarrow> 's \<Rightarrow> 's"
  cmds_createNode :: "string \<Rightarrow> string \<Rightarrow> 's \<Rightarrow> (string + string) \<times> 's"
  cmds_parent :: "string \<Rightarrow> string \<Rightarrow> 's \<Rightarrow> (exn + unit) \<times> 's"
  cmds_parent_world :: "string \<Rightarrow> 's \<Rightarrow> (exn + unit) \<times> 's"
  cmds_select :: "string \<Rightarrow> 's \<Rightarrow> 's"
  cmds_file_import :: "string \<Rightarrow> string \<Rightarrow> 's \<Rightarrow> string list \<times> 's"
  MayaFileItem_save :: "(string \<times> string) list \<Rightarrow> 's \<Rightarrow> 's"
  clustersFn_ROOT_GROUP :: string

text \<open>
  \<open>cmds_attributeQuery h s attr node\<close> is \<open>cmds.attributeQuery(attr, node=node, exists=True)\<close>;
  \<open>cmds_ls_selection h s ty\<close> is \<open>cmds.ls(sl=True, type=ty)\<close>;
  \<open>cmds_namespaceInfo h s\<close> is \<open>cmds.namespaceInfo(listOnlyNamespaces=True, recurse=True)\<close>;
  \<open>cmds_namespace_mv\<close> and \<open>cmds_namespace_rm\<close> are called with \<open>force=True\<close>;
  \<open>cmds_createNode h ty name s\<close> is \<open>cmds.createNode(ty, name=name)\<close>;
  \<open>cmds_parent_world h x\<close> is \<open>cmds.parent(x, world=True)\<close>;
  \<open>cmds_select h x\<close> is \<open>cmds.select(x, r=True)\<close>;
  \<open>cmds_file_import h path ns\<close> is \<open>cmds.file(path, i=True, ..., namespace=ns,
  returnNewNodes=True)\<close> and gives the new nodes.
\<close>

section \<open>prefabitem.py\<close>

definition PREFAB_NAME_ATTR :: string where
  "PREFAB_NAME_ATTR = ''prefab_name''"

definition swap_namespace :: "'s host \<Rightarrow> string \<Rightarrow> string \<Rightarrow> 's \<Rightarrow> (exn + unit) \<times> 's" where
  "swap_namespace h ns target_ns s =
     (if \<not> cmds_namespace_exists h s ns
      then (Inl (ValueError (''The given namespace '' @ apos @ ns @ apos
                              @ '' does not exist in this scene!'')), s)
      else
        let s1 = (if \<not> cmds_namespace_exists h s target_ns
                  then cmds_namespace_add h target_ns s else s);
            s2 = cmds_namespace_mv h ns target_ns s1;
            s3 = cmds_namespace_rm h ns s2
        in (Inr (), s3))"

definition get_cache_from_root :: "'s host \<Rightarrow> 's \<Rightarrow> string \<Rightarrow> exn + string" where
  "get_cache_from_root h s root_node =
     (if \<not> cmds_attributeQuery h s ''isPrefab'' root_node
      then Inl (ValueError (''The given node '' @ apos @ root_node @ apos
                             @ '' is note a valid prefab rig!''))
      else if \<not> cmds_attributeQuery h s ''usd_cycle_cache'' root_node
      then Inl (ValueError (''The given node '' @ apos @ root_node @ apos
                             @ '' has no USD cache linked to it!''))
      else (case cmds_listConnections h s (root_node @ ''.usd_cycle_cache'') of
              None \<Rightarrow> Inl TypeError
            | Some [] \<Rightarrow> Inl IndexError
            | Some (c # cs) \<Rightarrow> Inr c))"

text \<open>Lines 195 to 202 of \<open>get_namespace_from_cache\<close>: the short name is what follows the
  last colon; it must split on underscores into six parts, which are then unpacked. (The
  namespace prefix computed on line 195 is overwritten on line 207 before any use.)\<close>

definition cache_name_fields ::
  "string \<Rightarrow> exn + (string \<times> string \<times> string \<times> string \<times> string \<times> string)" where
  "cache_name_fields cacheNode =
     (let cacheNode' = last (split_on (CHR '':'') cacheNode) in
      if length (split_on (CHR ''_'') cacheNode') \<noteq> 6
      then Inl (ValueError ''Invalid name - Could not extract: asset_code, asset_descriptor, asset_mod, cycle_name, cycle_descriptor, cache_version'')
      else (case split_on (CHR ''_'') cacheNode' of
              [asset_code, asset_descriptor, asset_mod, cycle_name, cycle_descriptor, cache_version] \<Rightarrow>
                Inr (asset_code, asset_descriptor, asset_mod, cycle_name, cycle_descriptor, cache_version)
            | _ \<Rightarrow> Inl (ValueError ''unpack'')))"

text \<open>The \<open>while keepGoing\<close> loop of \<open>get_namespace_from_cache\<close>. It may run forever when
  every candidate node exists: \<open>None\<close> is that outcome.\<close>

partial_function (option) namespace_from_cache_loop ::
  "(string \<Rightarrow> bool) \<Rightarrow> string \<times> string \<times> string \<times> string \<times> string \<Rightarrow> nat \<Rightarrow> string option" where
  "namespace_from_cache_loop objExists flds instance =
     (case flds of (asset_code, asset_descriptor, asset_mod, cycle_name, cycle_descriptor) \<Rightarrow>
        let namespace0 = asset_code @ ''_'' @ asset_descriptor @ ''_'' @ asset_mod @ ''_''
                           @ cycle_name @ ''_'' @ cycle_descriptor;
            namespace = join ''_'' [namespace0, format_03d instance];
            root_name = namespace @ '':'' @ ''prefab''
        in if objExists root_name
           then namespace_from_cache_loop objExists flds (instance + 1)
           else Some namespace)"

definition get_namespace_from_cache :: "'s host \<Rightarrow> 's \<Rightarrow> string \<Rightarrow> (exn + string) option" where
  "get_namespace_from_cache h s cacheNode =
     (case cache_name_fields cacheNode of
        Inl e \<Rightarrow> Some (Inl e)
      | Inr (asset_code, asset_descriptor, asset_mod, cycle_name, cycle_descriptor, cache_version) \<Rightarrow>
          (case namespace_from_cache_loop (cmds_objExists h s)
                  (asset_code, asset_descriptor, asset_mod, cycle_name, cycle_descriptor) 0 of
             None \<Rightarrow> None
           | Some namespace \<Rightarrow> Some (Inr namespace)))"

text \<open>The \<open>while True\<close> loop of \<open>get_namespace_from_root\<close>.\<close>

partial_function (option) namespace_from_root_loop ::
  "string list \<Rightarrow> string \<Rightarrow> nat \<Rightarrow> string option" where
  "namespace_from_root_loop all_namespaces base_namespace instance =
     (let namespace = base_namespace @ ''_'' @ format_03d instance in
      if namespace \<notin> set all_namespaces then Some namespace
      else namespace_from_root_loop all_namespaces base_namespace (instance + 1))"

text \<open>\<open>get_namespace_from_root\<close> returns \<open>None\<close> (here the inner \<open>None\<close>) when the root has
  no \<open>prefab_name\<close> attribute; the outer \<open>None\<close> is a loop that does not return.\<close>

definition get_namespace_from_root :: "'s host \<Rightarrow> string \<Rightarrow> 's \<Rightarrow> (string option \<times> 's) option" where
  "get_namespace_from_root h root_node s =
     (if \<not> cmds_attributeQuery h s PREFAB_NAME_ATTR root_node then Some (None, s)
      else
        let base_namespace = cmds_getAttr h s (root_node @ ''.'' @ PREFAB_NAME_ATTR);
            s1 = cmds_namespace_setNamespace h '':'' s;
            all_namespaces = cmds_namespaceInfo h s1
        in (case namespace_from_root_loop all_namespaces base_namespace 0 of
              None \<Rightarrow> None
            | Some namespace \<Rightarrow> Some (Some namespace, s1)))"

definition group_prefab :: "'s host \<Rightarrow> string \<Rightarrow> string \<Rightarrow> 's \<Rightarrow> (exn + bool) \<times> 's" where
  "group_prefab h root_node group_name s =
     (case cmds_objExists_raises h s group_name of
        Some m \<Rightarrow> (Inl (RuntimeError m), s)
      | None \<Rightarrow>
          (case (if \<not> cmds_objExists h s group_name
                 then cmds_createNode h ''transform'' group_name s
                 else (Inr group_name, s)) of
             (Inl m, s1) \<Rightarrow> (Inl (RuntimeError m), s1)
           | (Inr grp, s1) \<Rightarrow>
               (case cmds_parent h root_node grp s1 of
                  (Inl e, s2) \<Rightarrow> (Inr False, s2)
                | (Inr u, s2) \<Rightarrow> (Inr True, s2))))"

text \<open>The \<open>for x in new_nodes\<close> loop of both \<open>_load_imported\<close> methods: the first node
  of type \<open>transform\<close> that has the marker attribute, \<open>None\<close> when the loop ends without
  a \<open>break\<close>.\<close>

fun imported_root :: "'s host \<Rightarrow> 's \<Rightarrow> string \<Rightarrow> string list \<Rightarrow> string option" where
  "imported_root h s marker [] = None"
| "imported_root h s marker (x # new_nodes) =
     (if cmds_nodeType h s x \<noteq> ''transform'' then imported_root h s marker new_nodes
      else if cmds_attributeQuery h s marker x then Some x
      else imported_root h s marker new_nodes)"

text \<open>\<open>not root_node\<close>: true of \<open>None\<close> and of the empty string.\<close>

definition py_not :: "string option \<Rightarrow> bool" where
  "py_not v = (case v of None \<Rightarrow> True | Some x \<Rightarrow> x = [])"

definition PrefabItem_IMPORT_NAMESPACE :: string where
  "PrefabItem_IMPORT_NAMESPACE = ''PREFAB_IMPORT_TEMP''"

definition PrefabItem_save :: "'s host \<Rightarrow> (string \<times> string) list \<Rightarrow> 's \<Rightarrow> (exn + unit) \<times> 's" where
  "PrefabItem_save h kwargs s =
     (let sel = cmds_ls_selection h s ''transform'';
          sel = filter (\<lambda>x. cmds_attributeQuery h s ''isPrefab'' x) sel
      in if sel = [] \<or> length sel > 1
         then (Inl (ValueError (''Please select a single Prefab rig'' @ apos @ ''s root transform.'')), s)
         else (Inr (), MayaFileItem_save h kwargs s))"

text \<open>Line 409: \<open>get_namespace_from_root(root_node) or get_namespace_from_cache(cache_node)\<close>.
  The right operand is evaluated only when the left one is \<open>None\<close> or empty.\<close>

definition new_namespace_of ::
  "'s host \<Rightarrow> string \<Rightarrow> string \<Rightarrow> 's \<Rightarrow> ((exn + string) \<times> 's) option" where
  "new_namespace_of h root_node cache_node s =
     (case get_namespace_from_root h root_node s of
        None \<Rightarrow> None
      | Some (r, s1) \<Rightarrow>
          if \<not> py_not r then Some (Inr (the r), s1)
          else (case get_namespace_from_cache h s1 cache_node of
                  None \<Rightarrow> None
                | Some v \<Rightarrow> Some (v, s1)))"

text \<open>\<open>PrefabItem._load_imported\<close>, lines 405 to 416: what the method does once it holds
  the root node.\<close>

definition PrefabItem_load_root :: "'s host \<Rightarrow> string \<Rightarrow> 's \<Rightarrow> ((exn + unit) \<times> 's) option" where
  "PrefabItem_load_root h root_node s1 =
     (case get_cache_from_root h s1 root_node of
        Inl e \<Rightarrow> Some (Inl e, s1)
      | Inr cache_node \<Rightarrow>
          (case new_namespace_of h root_node cache_node s1 of
             None \<Rightarrow> None
           | Some (Inl e, s2) \<Rightarrow> Some (Inl e, s2)
           | Some (Inr new_namespace, s2) \<Rightarrow>
               (case swap_namespace h PrefabItem_IMPORT_NAMESPACE new_namespace s2 of
                  (Inl e, s3) \<Rightarrow> Some (Inl e, s3)
                | (Inr u, s3) \<Rightarrow>
                    let root_node' = replace PrefabItem_IMPORT_NAMESPACE new_namespace root_node
                    in (case group_prefab h root_node' ''__Prefabs__'' s3 of
                          (Inl e, s4) \<Rightarrow> Some (Inl e, s4)
                        | (Inr b, s4) \<Rightarrow> Some (Inr (), s4)))))"

text \<open>\<open>PrefabItem._load_imported\<close>, from the import to the test of line 401.
  \<open>transferPath\<close> is the inherited \<open>self.transferPath()\<close>. The message of line 402
  ends with the printed form of the bound method \<open>self.transferPath\<close>, which is left
  out here.\<close>

definition PrefabItem_load_imported ::
  "'s host \<Rightarrow> string \<Rightarrow> (string \<times> string) list \<Rightarrow> 's \<Rightarrow> ((exn + unit) \<times> 's) option" where
  "PrefabItem_load_imported h transferPath kwargs s =
     (let (new_nodes, s1) = cmds_file_import h transferPath PrefabItem_IMPORT_NAMESPACE s;
          root_node = imported_root h s1 ''isPrefab'' new_nodes
      in if py_not root_node
         then Some (Inl (ValueError (''Could not find the prefab'' @ apos @ ''s root node'')), s1)
         else PrefabItem_load_root h (the root_node) s1)"

section \<open>prefabclusteritem.py\<close>

definition group_prefab_cluster :: "'s host \<Rightarrow> string \<Rightarrow> string \<Rightarrow> 's \<Rightarrow> (exn + bool) \<times> 's" where
  "group_prefab_cluster h root_node group_name s =
     (case cmds_objExists_raises h s group_name of
        Some m \<Rightarrow> (Inl (RuntimeError m), s)
      | None \<Rightarrow>
          (case (if \<not> cmds_objExists h s group_name
                 then cmds_createNode h ''transform'' group_name s
                 else (Inr group_name, s)) of
             (Inl m, s1) \<Rightarrow> (Inl (RuntimeError m), s1)
           | (Inr grp, s1) \<Rightarrow>
               (case cmds_parent h root_node grp s1 of
                  (Inl e, s2) \<Rightarrow> (Inr False, s2)
                | (Inr u, s2) \<Rightarrow> (Inr True, s2))))"

definition PrefabClusterItem_IMPORT_NAMESPACE :: string where
  "PrefabClusterItem_IMPORT_NAMESPACE = ''PREFAB_CLUSTER''"

definition PrefabClusterItem_transferPath :: "string \<Rightarrow> string" where
  "PrefabClusterItem_transferPath path = path @ ''/mayafile.ma''"

definition PrefabClusterItem_save ::
  "'s host \<Rightarrow> (string \<times> string) list \<Rightarrow> 's \<Rightarrow> (exn + unit) \<times> 's" where
  "PrefabClusterItem_save h kwargs s =
     (let sel = cmds_ls_selection h s ''transform'';
          sel = filter (\<lambda>x. cmds_attributeQuery h s ''isPrefabCluster'' x) sel
      in if sel = [] \<or> length sel > 1
         then (Inl (ValueError ''Please select a single PrefabCluster transform.''), s)
         else
           let s1 = cmds_select h (hd sel) s in
           (case cmds_parent_world h (hd sel) s1 of
              (Inl e, s2) \<Rightarrow> (Inl e, s2)
            | (Inr u, s2) \<Rightarrow>
                let s3 = MayaFileItem_save h kwargs s2 in
                (case cmds_parent h (hd sel) (clustersFn_ROOT_GROUP h) s3 of
                   (Inl e, s4) \<Rightarrow> (Inl e, s4)
                 | (Inr u, s4) \<Rightarrow> (Inr (), s4))))"

text \<open>Lines 266 to 270 of \<open>PrefabClusterItem._load_imported\<close>. The list
  \<open>duplicate_clusters\<close> of line 268 is computed and never read: the test and the length are
  those of the string \<open>duplicate_cluster\<close>.\<close>

definition cluster_new_namespace :: "string \<Rightarrow> string" where
  "cluster_new_namespace root_node =
     (let duplicate_cluster = last (split_on (CHR '':'') root_node);
          new_namespace = duplicate_cluster @ ''_0''
      in if duplicate_cluster \<noteq> []
         then duplicate_cluster @ ''_'' @ format_d (length duplicate_cluster)
         else new_namespace)"

text \<open>\<open>PrefabClusterItem._load_imported\<close>, lines 263 to 275: what the method does once it
  holds the root node. The comprehension of line 263 iterates the answer of
  \<open>listRelatives\<close>, which is \<open>None\<close> for a node without children; its result \<open>prefabs\<close>
  is not used.\<close>

definition PrefabClusterItem_load_root :: "'s host \<Rightarrow> string \<Rightarrow> 's \<Rightarrow> (exn + unit) \<times> 's" where
  "PrefabClusterItem_load_root h root_node s1 =
     (case cmds_listRelatives h s1 root_node of
        None \<Rightarrow> (Inl TypeError, s1)
      | Some children \<Rightarrow>
          let new_namespace = cluster_new_namespace root_node in
          (case cmds_parent h root_node (clustersFn_ROOT_GROUP h) s1 of
             (Inl e, s2) \<Rightarrow> (Inl e, s2)
           | (Inr u, s2) \<Rightarrow>
               swap_namespace h PrefabClusterItem_IMPORT_NAMESPACE new_namespace s2))"

text \<open>\<open>PrefabClusterItem._load_imported\<close>, from the import to the test of line 260.\<close>

definition PrefabClusterItem_load_imported ::
  "'s host \<Rightarrow> string \<Rightarrow> (string \<times> string) list \<Rightarrow> 's \<Rightarrow> (exn + unit) \<times> 's" where
  "PrefabClusterItem_load_imported h path kwargs s =
     (let (new_nodes, s1) = cmds_file_import h (PrefabClusterItem_transferPath path)
                              PrefabClusterItem_IMPORT_NAMESPACE s;
          root_node = imported_root h s1 ''isPrefabCluster'' new_nodes
      in if py_not root_node
         then (Inl (ValueError (''Could not find the prefab cluster'' @ apos @ ''s root node: ''
                                 @ PrefabClusterItem_transferPath path)), s1)
         else PrefabClusterItem_load_root h (the root_node) s1)"

section \<open>An in-memory scene\<close>

text \<open>
  A small scene on which the definitions above run on concrete inputs. A node is its full
  name, its type and its attributes with their values; a file on disk is the list of nodes
  it stores, under their short names. A node is in the namespace that its name spells
  before its last colon. Importing a file adds its nodes to the given namespace; moving a
  namespace gives the nodes in it the prefix of the target; removing a namespace removes
  it with the nodes still in it; parenting raises when either node is missing.
\<close>

type_synonym node = "string \<times> string \<times> (string \<times> string) list"

type_synonym links = "(string \<times> string list) list"

record scene =
  sc_nodes :: "node list"
  sc_connections :: links
  sc_children :: links
  sc_parents :: "(string \<times> string) list"
  sc_selection :: "string list"
  sc_namespaces :: "string list"
  sc_current :: string
  sc_files :: "(string \<times> node list \<times> links \<times> links) list"
  sc_saved :: "string list list"

definition sc_objExists :: "scene \<Rightarrow> string \<Rightarrow> bool" where
  "sc_objExists s n = (n \<in> set (map fst (sc_nodes s)))"

definition sc_nodeType :: "scene \<Rightarrow> string \<Rightarrow> string" where
  "sc_nodeType s n = (case map_of (sc_nodes s) n of None \<Rightarrow> [] | Some (ty, as) \<Rightarrow> ty)"

definition sc_attributeQuery :: "scene \<Rightarrow> string \<Rightarrow> string \<Rightarrow> bool" where
  "sc_attributeQuery s a n =
     (case map_of (sc_nodes s) n of None \<Rightarrow> False | Some (ty, as) \<Rightarrow> a \<in> set (map fst as))"

definition sc_getAttr :: "scene \<Rightarrow> string \<Rightarrow> string" where
  "sc_getAttr s plug =
     (let parts = split_on (CHR ''.'') plug in
      case map_of (sc_nodes s) (join ''.'' (butlast parts)) of
        None \<Rightarrow> ''None''
      | Some (ty, as) \<Rightarrow> (case map_of as (last parts) of None \<Rightarrow> ''None'' | Some v \<Rightarrow> v))"

definition sc_under :: "string \<Rightarrow> string \<Rightarrow> bool" where
  "sc_under ns n =
     (take (length ns + 1) n = ns @ '':'' \<and> CHR '':'' \<notin> set (drop (length ns + 1) n))"

definition sc_rename :: "string \<Rightarrow> string \<Rightarrow> string \<Rightarrow> string" where
  "sc_rename ns target n = (if sc_under ns n then target @ drop (length ns) n else n)"

definition sc_namespace_mv :: "string \<Rightarrow> string \<Rightarrow> scene \<Rightarrow> scene" where
  "sc_namespace_mv ns target s =
     s\<lparr>sc_nodes := map (\<lambda>(n, ty, as). (sc_rename ns target n, ty, as)) (sc_nodes s),
       sc_connections := map (\<lambda>(p, ns'). (sc_rename ns target p, map (sc_rename ns target) ns'))
                           (sc_connections s),
       sc_children := map (\<lambda>(p, ns'). (sc_rename ns target p, map (sc_rename ns target) ns'))
                        (sc_children s),
       sc_parents := map (\<lambda>(c, p). (sc_rename ns target c, sc_rename ns target p)) (sc_parents s)\<rparr>"

definition sc_namespace_rm :: "string \<Rightarrow> scene \<Rightarrow> scene" where
  "sc_namespace_rm ns s =
     s\<lparr>sc_nodes := filter (\<lambda>(n, ty, as). \<not> sc_under ns n) (sc_nodes s),
       sc_namespaces := removeAll ns (sc_namespaces s)\<rparr>"

definition sc_parent :: "string \<Rightarrow> string \<Rightarrow> scene \<Rightarrow> (exn + unit) \<times> scene" where
  "sc_parent child grp s =
     (if sc_objExists s child \<and> sc_objExists s grp
      then (Inr (), s\<lparr>sc_parents := (child, grp) # filter (\<lambda>(c, p). c \<noteq> child) (sc_parents s)\<rparr>)
      else (Inl (RuntimeError ''No object matches name''), s))"

definition sc_parent_world :: "string \<Rightarrow> scene \<Rightarrow> (exn + unit) \<times> scene" where
  "sc_parent_world child s =
     (if sc_objExists s child
      then (Inr (), s\<lparr>sc_parents := filter (\<lambda>(c, p). c \<noteq> child) (sc_parents s)\<rparr>)
      else (Inl (RuntimeError ''No object matches name''), s))"

definition sc_file_import :: "string \<Rightarrow> string \<Rightarrow> scene \<Rightarrow> string list \<times> scene" where
  "sc_file_import path ns s =
     (case (case map_of (sc_files s) path of None \<Rightarrow> ([], [], []) | Some f \<Rightarrow> f) of
        (nodes, connections, children) \<Rightarrow>
          let new = map (\<lambda>(n, ty, as). (ns @ '':'' @ n, ty, as)) nodes;
              pre = map (\<lambda>(p, ns'). (ns @ '':'' @ p, map (\<lambda>n. ns @ '':'' @ n) ns'))
          in (map fst new,
              s\<lparr>sc_nodes := sc_nodes s @ new,
                sc_connections := pre connections @ sc_connections s,
                sc_children := pre children @ sc_children s,
                sc_namespaces := (if ns \<in> set (sc_namespaces s) then sc_namespaces s
                                  else sc_namespaces s @ [ns])\<rparr>))"

definition scene_host :: "scene host" where
  "scene_host =
     \<lparr>cmds_objExists = sc_objExists,
      cmds_objExists_raises = (\<lambda>s n. None),
      cmds_nodeType = sc_nodeType,
      cmds_attributeQuery = sc_attributeQuery,
      cmds_getAttr = sc_getAttr,
      cmds_listConnections = (\<lambda>s plug. map_of (sc_connections s) plug),
      cmds_listRelatives = (\<lambda>s n. map_of (sc_children s) n),
      cmds_ls_selection = (\<lambda>s ty. filter (\<lambda>n. sc_nodeType s n = ty) (sc_selection s)),
      cmds_namespace_exists = (\<lambda>s ns. ns \<in> set (sc_namespaces s)),
      cmds_namespaceInfo = sc_namespaces,
      cmds_namespace_setNamespace = (\<lambda>ns s. s\<lparr>sc_current := ns\<rparr>),
      cmds_namespace_add = (\<lambda>ns s. s\<lparr>sc_namespaces := sc_namespaces s @ [ns]\<rparr>),
      cmds_namespace_mv = sc_namespace_mv,
      cmds_namespace_rm = sc_namespace_rm,
      cmds_createNode = (\<lambda>ty name s. (Inr name, s\<lparr>sc_nodes := sc_nodes s @ [(name, ty, [])]\<rparr>)),
      cmds_parent = sc_parent,
      cmds_parent_world = sc_parent_world,
      cmds_select = (\<lambda>x s. s\<lparr>sc_selection := [x]\<rparr>),
      cmds_file_import = sc_file_import,
      MayaFileItem_save = (\<lambda>kwargs s. s\<lparr>sc_saved := sc_saved s @ [sc_selection s]\<rparr>),
      clustersFn_ROOT_GROUP = ''PrefabClusters''\<rparr>"

text \<open>Saved items: a prefab whose root is linked to a cache node and records no
  namespace, one whose root also records the namespace \<open>hero\<close>, one whose root records a
  namespace and has no cache link, and a cluster.\<close>

definition shepherd_file :: "node list \<times> links \<times> links" where
  "shepherd_file =
     ([(''prefab'', ''transform'', [(''isPrefab'', ''True''), (''usd_cycle_cache'', ''None'')]),
       (''c027_shepherd_m00_tall_dancing_03'', ''gpuCache'', [])],
      [(''prefab.usd_cycle_cache'', [''c027_shepherd_m00_tall_dancing_03''])],
      [])"

definition hero_file :: "node list \<times> links \<times> links" where
  "hero_file =
     ([(''geo'', ''mesh'', []),
       (''prefab'', ''transform'',
          [(''isPrefab'', ''True''), (''usd_cycle_cache'', ''None''), (''prefab_name'', ''hero'')]),
       (''c027_shepherd_m00_tall_dancing_03'', ''gpuCache'', [])],
      [(''prefab.usd_cycle_cache'', [''c027_shepherd_m00_tall_dancing_03''])],
      [])"

definition uncached_file :: "node list \<times> links \<times> links" where
  "uncached_file =
     ([(''prefab'', ''transform'', [(''isPrefab'', ''True''), (''prefab_name'', ''hero'')])],
      [], [])"

definition crowd_file :: "node list \<times> links \<times> links" where
  "crowd_file =
     ([(''crowd'', ''transform'', [(''isPrefabCluster'', ''True'')]),
       (''extra'', ''transform'', [])],
      [],
      [(''crowd'', [''extra''])])"

definition library_scene :: scene where
  "library_scene =
     \<lparr>sc_nodes = [(''PrefabClusters'', ''transform'', [])],
      sc_connections = [], sc_children = [], sc_parents = [],
      sc_selection = [], sc_namespaces = [''UI'', ''shared''], sc_current = '':'',
      sc_files = [(''shepherd'', shepherd_file), (''hero'', hero_file),
                  (''uncached'', uncached_file), (''crowd/mayafile.ma'', crowd_file)],
      sc_saved = []\<rparr>"

text \<open>A scene in the middle of a load: the prefab that records the namespace \<open>hero\<close> has
  been imported, and the namespaces \<open>hero_000\<close> and \<open>hero_001\<close> are taken.\<close>

definition hero_scene :: scene where
  "hero_scene =
     \<lparr>sc_nodes = [(''PREFAB_IMPORT_TEMP:prefab'', ''transform'',
                     [(''isPrefab'', ''True''), (''usd_cycle_cache'', ''None''),
                      (''prefab_name'', ''hero'')])],
      sc_connections = [], sc_children = [], sc_parents = [],
      sc_selection = [], sc_namespaces = [''hero_000'', ''hero_001''], sc_current = ''hero_000'',
      sc_files = [], sc_saved = []\<rparr>"

text \<open>A scene in which the namespace \<open>c027_shepherd_m00_tall_dancing_000\<close> exists and holds
  no node called \<open>prefab\<close>, and in which an imported root records the base
  \<open>c027_shepherd_m00_tall_dancing\<close> that its cache node also spells.\<close>

definition stale_scene :: scene where
  "stale_scene =
     \<lparr>sc_nodes = [(''c027_shepherd_m00_tall_dancing_000:rig'', ''transform'', []),
                  (''PREFAB_IMPORT_TEMP:prefab'', ''transform'',
                     [(''isPrefab'', ''True''), (''usd_cycle_cache'', ''None''),
                      (''prefab_name'', ''c027_shepherd_m00_tall_dancing'')]),
                  (''PREFAB_IMPORT_TEMP:c027_shepherd_m00_tall_dancing_03'', ''gpuCache'', [])],
      sc_connections = [(''PREFAB_IMPORT_TEMP:prefab.usd_cycle_cache'',
                         [''PREFAB_IMPORT_TEMP:c027_shepherd_m00_tall_dancing_03''])],
      sc_children = [], sc_parents = [],
      sc_selection = [],
      sc_namespaces = [''UI'', ''shared'', ''c027_shepherd_m00_tall_dancing_000'',
                       ''PREFAB_IMPORT_TEMP''],
      sc_current = '':'',
      sc_files = [], sc_saved = []\<rparr>"

text \<open>The library scene right after the import step of loading the item \<open>hero\<close>.\<close>

definition hero_imported :: scene where
  "hero_imported = snd (cmds_file_import scene_host ''hero'' PrefabItem_IMPORT_NAMESPACE library_scene)"

text \<open>The library scene right after the import step of loading the item \<open>uncached\<close>.\<close>

definition uncached_imported :: scene where
  "uncached_imported =
     snd (cmds_file_import scene_host ''uncached'' PrefabItem_IMPORT_NAMESPACE library_scene)"

text \<open>The library scene after the cluster item \<open>crowd\<close> has been loaded once.\<close>

definition crowd_loaded :: scene where
  "crowd_loaded = snd (PrefabClusterItem_load_imported scene_host ''crowd'' [] library_scene)"

text \<open>A scene with two prefab roots, a cluster root and the cluster group, and a given
  selection.\<close>

definition selected :: "string list \<Rightarrow> scene" where
  "selected sel =
     \<lparr>sc_nodes = [(''rigA'', ''transform'', [(''isPrefab'', ''True'')]),
                  (''rigB'', ''transform'', [(''isPrefab'', ''True'')]),
                  (''crowd'', ''transform'', [(''isPrefabCluster'', ''True'')]),
                  (''PrefabClusters'', ''transform'', [])],
      sc_connections = [], sc_children = [], sc_parents = [(''crowd'', ''PrefabClusters'')],
      sc_selection = sel, sc_namespaces = [''UI'', ''shared''], sc_current = '':'',
      sc_files = [], sc_saved = []\<rparr>"

text \<open>The in-memory scene with node creation refused, as in a scene that is read-only,
  and with an existence query that rejects the empty name.\<close>

definition refusing_host :: "scene host" where
  "refusing_host =
     scene_host\<lparr>cmds_objExists_raises := (\<lambda>s n. if n = [] then Some ''Invalid name'' else None),
                cmds_createNode := (\<lambda>ty name s. (Inl ''Cannot create node'', s))\<rparr>"

text \<open>The library scene without the node of the cluster group.\<close>

definition bare_scene :: scene where
  "bare_scene = library_scene\<lparr>sc_nodes := []\<rparr>"

text \<open>A scene whose namespaces are \<open>c027_shepherd_m00_tall_dancing_000\<close> and
  \<open>c027_shepherd_m00_tall_dancing_001\<close>, neither of which holds a node called
  \<open>prefab\<close>.\<close>

definition taken_scene :: scene where
  "taken_scene =
     \<lparr>sc_nodes = [(''c027_shepherd_m00_tall_dancing_000:rig'', ''transform'', []),
                  (''c027_shepherd_m00_tall_dancing_001:rig'', ''transform'', [])],
      sc_connections = [], sc_children = [], sc_parents = [],
      sc_selection = [],
      sc_namespaces = [''c027_shepherd_m00_tall_dancing_000'',
                       ''c027_shepherd_m00_tall_dancing_001''],
      sc_current = '':'',
      sc_files = [], sc_saved = []\<rparr>"

text \<open>Reading a decimal numeral back, to show that the formats lose nothing.\<close>

definition digit_val :: "char \<Rightarrow> nat" where
  "digit_val c = of_char c - 48"

definition undec :: "string \<Rightarrow> nat" where
  "undec s = foldl (\<lambda>a c. 10 * a + digit_val c) 0 s"

section \<open>Facts about the string functions\<close>

lemma split_on_not_Nil: "split_on c s \<noteq> []"
  by (induction s) (auto split: list.splits)

lemma digit_char_lt10: "d < 10 \<Longrightarrow> of_char (digit_char d) = (48 + d :: nat)"
proof -
  assume "d < 10"
  then have "d \<in> {0,1,2,3,4,5,6,7,8,9}" by auto
  then show ?thesis by (auto simp: digit_char_def)
qed

lemma undec_snoc: "undec (s @ [c]) = 10 * undec s + digit_val c"
  by (simp add: undec_def)

lemma undec_format_d: "undec (format_d n) = n"
proof (induction n rule: format_d.induct)
  case (1 n)
  show ?case
  proof (cases "n < 10")
    case True
    then show ?thesis
      by (simp add: format_d.simps[of n] undec_def digit_val_def digit_char_lt10)
  next
    case False
    then have "undec (format_d (n div 10)) = n div 10" using 1 by simp
    moreover have "digit_val (digit_char (n mod 10)) = n mod 10"
      by (simp add: digit_val_def digit_char_lt10)
    ultimately show ?thesis using False
      by (simp add: format_d.simps[of n] undec_snoc)
  qed
qed

lemma undec_zeros: "undec (replicate k (CHR ''0'') @ s) = undec s"
proof (induction k)
  case 0 then show ?case by simp
next
  case (Suc k)
  have "foldl (\<lambda>a c. 10 * a + digit_val c) 0 (CHR ''0'' # replicate k (CHR ''0'') @ s)
        = foldl (\<lambda>a c. 10 * a + digit_val c) 0 (replicate k (CHR ''0'') @ s)"
    by (simp add: digit_val_def)
  with Suc show ?case by (simp add: undec_def)
qed

lemma undec_format_03d: "undec (format_03d n) = n"
  by (simp add: format_03d_def undec_zeros undec_format_d)

lemma format_03d_inj: "format_03d m = format_03d n \<Longrightarrow> m = n"
  by (metis undec_format_03d)

lemma format_03d_small:
  "format_03d 0 = ''000''" "format_03d 1 = ''001''" "format_03d 2 = ''002''"
  by (simp_all add: format_03d_def format_d.simps digit_char_def numeral_2_eq_2)

section \<open>Facts about the two search loops\<close>

text \<open>A loop that tests candidate \<open>n\<close>, returns on success and moves to \<open>n + 1\<close>
  otherwise returns the first candidate that passes, once one exists.\<close>

lemma loop_reaches:
  assumes unfold: "\<And>n. f n = (if P n then Some (g n) else f (Suc n))"
    and "P k" and "\<forall>m. n \<le> m \<and> m < k \<longrightarrow> \<not> P m" and "n \<le> k"
  shows "f n = Some (g k)"
  using assms(2-)
proof (induction "k - n" arbitrary: n)
  case 0
  then have "n = k" by simp
  with 0 show ?case by (subst unfold) simp
next
  case (Suc d)
  then have "n < k" by simp
  with Suc.prems have "\<not> P n" by simp
  moreover have "f (Suc n) = Some (g k)"
    using Suc.hyps Suc.prems \<open>n < k\<close> by (intro Suc.hyps(1)) auto
  ultimately show ?case by (subst unfold) simp
qed

lemma free_candidate_exists:
  assumes "finite U" and "inj c"
  shows "\<exists>k::nat. c k \<notin> U"
proof (rule ccontr)
  assume "\<not> (\<exists>k. c k \<notin> U)"
  then have "range c \<subseteq> U" by auto
  then have "finite (range c)" using assms(1) finite_subset by blast
  then have "finite (UNIV :: nat set)" using assms(2) finite_imageD by blast
  then show False by simp
qed

lemma least_free_candidate:
  assumes "finite U" and "inj c"
  shows "\<exists>k::nat. c k \<notin> U \<and> (\<forall>m<k. c m \<in> U)"
proof -
  obtain k0 where "c k0 \<notin> U" using free_candidate_exists[OF assms] by blast
  then have "c (LEAST k. c k \<notin> U) \<notin> U" by (rule LeastI)
  moreover have "\<forall>m < (LEAST k. c k \<notin> U). c m \<in> U"
    using not_less_Least by blast
  ultimately show ?thesis by blast
qed

lemma root_candidate_inj: "inj (\<lambda>n. base @ ''_'' @ format_03d n)"
  by (rule injI) (simp add: format_03d_inj)

lemma root_loop_reaches:
  assumes "base @ ''_'' @ format_03d k \<notin> set used"
    and "\<forall>m<k. base @ ''_'' @ format_03d m \<in> set used"
  shows "namespace_from_root_loop used base 0 = Some (base @ ''_'' @ format_03d k)"
proof -
  have "namespace_from_root_loop used base 0 = Some ((\<lambda>n. base @ ''_'' @ format_03d n) k)"
    by (rule loop_reaches[where P = "\<lambda>n. base @ ''_'' @ format_03d n \<notin> set used"])
       (use assms in \<open>auto simp: namespace_from_root_loop.simps[of used base] Let_def\<close>)
  then show ?thesis by simp
qed

lemma cache_candidate_inj: "inj (\<lambda>n. (base @ ''_'' @ format_03d n) @ '':prefab'')"
  by (rule injI) (simp add: format_03d_inj)

lemma cache_loop_reaches:
  assumes "\<not> ex ((a @ ''_'' @ b @ ''_'' @ c @ ''_'' @ d @ ''_'' @ e @ ''_'' @ format_03d k) @ '':prefab'')"
    and "\<forall>m<k. ex ((a @ ''_'' @ b @ ''_'' @ c @ ''_'' @ d @ ''_'' @ e @ ''_'' @ format_03d m) @ '':prefab'')"
  shows "namespace_from_cache_loop ex (a, b, c, d, e) 0
         = Some (a @ ''_'' @ b @ ''_'' @ c @ ''_'' @ d @ ''_'' @ e @ ''_'' @ format_03d k)"
proof -
  let ?g = "\<lambda>n. a @ ''_'' @ b @ ''_'' @ c @ ''_'' @ d @ ''_'' @ e @ ''_'' @ format_03d n"
  have "namespace_from_cache_loop ex (a, b, c, d, e) 0 = Some (?g k)"
    by (rule loop_reaches[where P = "\<lambda>n. \<not> ex (?g n @ '':prefab'')"])
       (use assms in \<open>auto simp: namespace_from_cache_loop.simps[of ex "(a, b, c, d, e)"] Let_def\<close>)
  then show ?thesis by simp
qed

lemma root_loop_returns:
  "\<exists>k. namespace_from_root_loop used base 0 = Some (base @ ''_'' @ format_03d k)
       \<and> base @ ''_'' @ format_03d k \<notin> set used
       \<and> (\<forall>m<k. base @ ''_'' @ format_03d m \<in> set used)"
proof -
  obtain k where k: "base @ ''_'' @ format_03d k \<notin> set used"
      "\<forall>m<k. base @ ''_'' @ format_03d m \<in> set used"
    using least_free_candidate[OF finite_set[of used] root_candidate_inj[of base]] by blast
  with root_loop_reaches[OF k] show ?thesis by blast
qed

lemma cache_loop_returns:
  assumes "finite {x. ex x}"
  shows "\<exists>k. namespace_from_cache_loop ex (a, b, c, d, e) 0
              = Some (a @ ''_'' @ b @ ''_'' @ c @ ''_'' @ d @ ''_'' @ e @ ''_'' @ format_03d k)
       \<and> \<not> ex ((a @ ''_'' @ b @ ''_'' @ c @ ''_'' @ d @ ''_'' @ e @ ''_'' @ format_03d k) @ '':prefab'')
       \<and> (\<forall>m<k. ex ((a @ ''_'' @ b @ ''_'' @ c @ ''_'' @ d @ ''_'' @ e @ ''_'' @ format_03d m) @ '':prefab''))"
proof -
  let ?base = "a @ ''_'' @ b @ ''_'' @ c @ ''_'' @ d @ ''_'' @ e"
  have inj: "inj (\<lambda>n. (?base @ ''_'' @ format_03d n) @ '':prefab'')"
    by (rule cache_candidate_inj)
  obtain k where "(?base @ ''_'' @ format_03d k) @ '':prefab'' \<notin> {x. ex x}"
      "\<forall>m<k. (?base @ ''_'' @ format_03d m) @ '':prefab'' \<in> {x. ex x}"
    using least_free_candidate[OF assms inj] by blast
  then have k: "\<not> ex ((a @ ''_'' @ b @ ''_'' @ c @ ''_'' @ d @ ''_'' @ e @ ''_'' @ format_03d k) @ '':prefab'')"
      "\<forall>m<k. ex ((a @ ''_'' @ b @ ''_'' @ c @ ''_'' @ d @ ''_'' @ e @ ''_'' @ format_03d m) @ '':prefab'')"
    by simp_all
  with cache_loop_reaches[OF k] show ?thesis by blast
qed

lemma scene_finite: "finite {x. cmds_objExists scene_host s x}"
  by (simp add: scene_host_def sc_objExists_def)

lemma format_03d_Suc_0: "format_03d (Suc 0) = ''001''"
  using format_03d_small(2) by simp

lemma root_allocator:
  assumes "cmds_attributeQuery h s PREFAB_NAME_ATTR root_node"
  shows "get_namespace_from_root h root_node s =
           (case namespace_from_root_loop
                   (cmds_namespaceInfo h (cmds_namespace_setNamespace h '':'' s))
                   (cmds_getAttr h s (root_node @ ''.'' @ PREFAB_NAME_ATTR)) 0 of
              None \<Rightarrow> None
            | Some namespace \<Rightarrow> Some (Some namespace, cmds_namespace_setNamespace h '':'' s))"
  using assms by (simp add: get_namespace_from_root_def Let_def)

lemma cache_fields_example:
  "cache_name_fields ''c027_shepherd_m00_tall_dancing_03''
     = Inr (''c027'', ''shepherd'', ''m00'', ''tall'', ''dancing'', ''03'')"
  by (simp add: cache_name_fields_def)

lemma cache_fields_example_ns:
  "cache_name_fields ''PREFAB_IMPORT_TEMP:c027_shepherd_m00_tall_dancing_03''
     = Inr (''c027'', ''shepherd'', ''m00'', ''tall'', ''dancing'', ''03'')"
  by (simp add: cache_name_fields_def)

lemma split_on_no_sep: "c \<notin> set f \<Longrightarrow> split_on c f = [f]"
  by (induction f) auto

lemma split_on_field: "c \<notin> set f \<Longrightarrow> split_on c (f @ c # rest) = f # split_on c rest"
  by (induction f) auto

lemma six_not_unpack:
  "length xs = 6 \<Longrightarrow> \<exists>a b c d e v. xs = [a, b, c, d, e, v]"
  by (auto simp: length_Suc_conv eval_nat_numeral)

lemma cache_name_fields_Inr:
  "(cache_name_fields cacheNode = Inr (a, b, c, d, e, v))
   = (split_on (CHR ''_'') (last (split_on (CHR '':'') cacheNode)) = [a, b, c, d, e, v])"
proof (cases "length (split_on (CHR ''_'') (last (split_on (CHR '':'') cacheNode))) = 6")
  case True
  then obtain a' b' c' d' e' v' where
    "split_on (CHR ''_'') (last (split_on (CHR '':'') cacheNode)) = [a', b', c', d', e', v']"
    using six_not_unpack by blast
  then show ?thesis by (auto simp: cache_name_fields_def Let_def)
next
  case False
  then show ?thesis by (auto simp: cache_name_fields_def Let_def)
qed

lemma cache_name_fields_Inl:
  "(\<exists>m. cache_name_fields cacheNode = Inl (ValueError m))
   = (length (split_on (CHR ''_'') (last (split_on (CHR '':'') cacheNode))) \<noteq> 6)"
proof (cases "length (split_on (CHR ''_'') (last (split_on (CHR '':'') cacheNode))) = 6")
  case True
  then obtain a' b' c' d' e' v' where
    "split_on (CHR ''_'') (last (split_on (CHR '':'') cacheNode)) = [a', b', c', d', e', v']"
    using six_not_unpack by blast
  then show ?thesis by (auto simp: cache_name_fields_def Let_def)
next
  case False
  then show ?thesis by (auto simp: cache_name_fields_def Let_def)
qed

lemma cache_name_fields_Inl_any:
  "(\<exists>err. cache_name_fields cacheNode = Inl err)
   = (length (split_on (CHR ''_'') (last (split_on (CHR '':'') cacheNode))) \<noteq> 6)"
proof (cases "length (split_on (CHR ''_'') (last (split_on (CHR '':'') cacheNode))) = 6")
  case True
  then obtain a' b' c' d' e' v' where
    "split_on (CHR ''_'') (last (split_on (CHR '':'') cacheNode)) = [a', b', c', d', e', v']"
    using six_not_unpack by blast
  then show ?thesis by (auto simp: cache_name_fields_def Let_def)
next
  case False
  then show ?thesis by (auto simp: cache_name_fields_def Let_def)
qed

lemma get_namespace_from_cache_raises:
  "(\<exists>err. get_namespace_from_cache h s cacheNode = Some (Inl err))
   = (\<exists>err. cache_name_fields cacheNode = Inl err)"
  by (auto simp: get_namespace_from_cache_def split: sum.splits option.splits)

lemma join_six_roundtrip:
  assumes "\<forall>f \<in> set [a, b, c, d, e, v]. CHR ''_'' \<notin> set f \<and> CHR '':'' \<notin> set f"
  shows "cache_name_fields (join ''_'' [a, b, c, d, e, v]) = Inr (a, b, c, d, e, v)"
proof -
  let ?n = "join ''_'' [a, b, c, d, e, v]"
  have nocolon: "CHR '':'' \<notin> set ?n" using assms by auto
  have short: "\<And>n. CHR '':'' \<notin> set n \<Longrightarrow> last (split_on (CHR '':'') n) = n"
    by (simp add: split_on_no_sep)
  have "split_on (CHR ''_'') ?n = [a, b, c, d, e, v]"
    using assms by (simp add: split_on_field split_on_no_sep)
  then have "split_on (CHR ''_'') (last (split_on (CHR '':'') ?n)) = [a, b, c, d, e, v]"
    by (simp only: short[OF nocolon])
  then show ?thesis by (simp only: cache_name_fields_Inr)
qed

lemma imported_root_None_iff:
  "(imported_root h s marker new_nodes = None)
   = (\<not> (\<exists>x \<in> set new_nodes. cmds_nodeType h s x = ''transform'' \<and> cmds_attributeQuery h s marker x))"
  by (induction new_nodes) auto

lemma imported_root_first:
  assumes "cmds_nodeType h s x = ''transform''" and "cmds_attributeQuery h s marker x"
    and "\<forall>y \<in> set pre. \<not> (cmds_nodeType h s y = ''transform'' \<and> cmds_attributeQuery h s marker y)"
  shows "imported_root h s marker (pre @ x # post) = Some x"
  using assms by (induction pre) auto

lemma root_error_not_cache:
  "get_cache_from_root h s r \<noteq> Inl (ValueError (''Could not find the prefab'' @ apos @ ''s root node''))"
  by (auto simp: get_cache_from_root_def split: option.splits list.splits)

lemma root_error_not_fields:
  "cache_name_fields c \<noteq> Inl (ValueError (''Could not find the prefab'' @ apos @ ''s root node''))"
  by (auto simp: cache_name_fields_def Let_def split: list.splits)

lemma root_error_not_namespace:
  "new_namespace_of h r c s \<noteq> Some (Inl (ValueError (''Could not find the prefab'' @ apos @ ''s root node'')), s')"
  using root_error_not_fields[of c]
  by (auto simp: new_namespace_of_def get_namespace_from_cache_def
           split: option.splits sum.splits prod.splits if_splits)

lemma root_error_not_swap:
  "swap_namespace h a b s \<noteq> (Inl (ValueError (''Could not find the prefab'' @ apos @ ''s root node'')), s')"
  by (auto simp: swap_namespace_def Let_def)

lemma group_prefab_raises_runtime:
  "group_prefab h r g s = (Inl e, s') \<Longrightarrow> \<exists>m. e = RuntimeError m"
  by (auto simp: group_prefab_def split: option.splits prod.splits sum.splits if_splits)

lemma root_error_not_load_root:
  "PrefabItem_load_root h r s \<noteq> Some (Inl (ValueError (''Could not find the prefab'' @ apos @ ''s root node'')), s')"
proof
  let ?e = "ValueError (''Could not find the prefab'' @ apos @ ''s root node'')"
  assume a: "PrefabItem_load_root h r s = Some (Inl ?e, s')"
  show False
  proof (cases "get_cache_from_root h s r")
    case (Inl e)
    with a root_error_not_cache[of h s r] show False by (simp add: PrefabItem_load_root_def)
  next
    case (Inr c)
    show False
    proof (cases "new_namespace_of h r c s")
      case None
      with a Inr show False by (simp add: PrefabItem_load_root_def)
    next
      case (Some v)
      obtain res s2 where v: "v = (res, s2)" by (cases v)
      show False
      proof (cases res)
        case (Inl e)
        with a Inr Some v root_error_not_namespace[of h r c s s2] show False
          by (auto simp: PrefabItem_load_root_def)
      next
        case ns: (Inr ns)
        obtain r3 s3 where sw: "swap_namespace h PrefabItem_IMPORT_NAMESPACE ns s2 = (r3, s3)"
          by (cases "swap_namespace h PrefabItem_IMPORT_NAMESPACE ns s2")
        show False
        proof (cases r3)
          case (Inl e)
          with a Inr Some v ns sw root_error_not_swap[of h PrefabItem_IMPORT_NAMESPACE ns s2 s3]
          show False by (auto simp: PrefabItem_load_root_def)
        next
          case u: (Inr u)
          obtain r4 s4 where g: "group_prefab h (replace PrefabItem_IMPORT_NAMESPACE ns r) ''__Prefabs__'' s3 = (r4, s4)"
            by (cases "group_prefab h (replace PrefabItem_IMPORT_NAMESPACE ns r) ''__Prefabs__'' s3")
          show False
          proof (cases r4)
            case (Inl e4)
            with g group_prefab_raises_runtime[of h "replace PrefabItem_IMPORT_NAMESPACE ns r"
                     "''__Prefabs__''" s3 e4 s4]
            obtain m where "e4 = RuntimeError m" by auto
            with a Inr Some v ns sw u g Inl show False
              by (auto simp: PrefabItem_load_root_def Let_def)
          next
            case (Inr b)
            with a \<open>get_cache_from_root h s r = Inr c\<close> Some v ns sw u g show False
              by (auto simp: PrefabItem_load_root_def Let_def)
          qed
        qed
      qed
    qed
  qed
qed

lemma hero_import:
  "cmds_file_import scene_host ''hero'' PrefabItem_IMPORT_NAMESPACE library_scene
   = ([''PREFAB_IMPORT_TEMP:geo'', ''PREFAB_IMPORT_TEMP:prefab'',
       ''PREFAB_IMPORT_TEMP:c027_shepherd_m00_tall_dancing_03''],
      snd (cmds_file_import scene_host ''hero'' PrefabItem_IMPORT_NAMESPACE library_scene))"
  by (simp add: scene_host_def sc_file_import_def library_scene_def hero_file_def
        PrefabItem_IMPORT_NAMESPACE_def prod_eq_iff)

lemma not_single: "(xs = [] \<or> 1 < length xs) = (length xs \<noteq> 1)"
  by (cases xs) auto

lemma group_prefab_cluster_eq: "group_prefab_cluster h r g s = group_prefab h r g s"
  by (simp add: group_prefab_cluster_def group_prefab_def)

lemmas scene_eval = scene_host_def sc_objExists_def sc_nodeType_def sc_attributeQuery_def
  sc_getAttr_def sc_under_def sc_rename_def sc_namespace_mv_def sc_namespace_rm_def
  sc_parent_def sc_parent_world_def sc_file_import_def

lemma hero_imported_eq:
  "hero_imported =
     library_scene\<lparr>sc_nodes := [(''PrefabClusters'', ''transform'', []),
        (''PREFAB_IMPORT_TEMP:geo'', ''mesh'', []),
        (''PREFAB_IMPORT_TEMP:prefab'', ''transform'',
           [(''isPrefab'', ''True''), (''usd_cycle_cache'', ''None''), (''prefab_name'', ''hero'')]),
        (''PREFAB_IMPORT_TEMP:c027_shepherd_m00_tall_dancing_03'', ''gpuCache'', [])],
       sc_connections := [(''PREFAB_IMPORT_TEMP:prefab.usd_cycle_cache'',
                           [''PREFAB_IMPORT_TEMP:c027_shepherd_m00_tall_dancing_03''])],
       sc_namespaces := [''UI'', ''shared'', ''PREFAB_IMPORT_TEMP'']\<rparr>"
  by (simp add: hero_imported_def scene_eval library_scene_def hero_file_def
        PrefabItem_IMPORT_NAMESPACE_def)

lemma hero_cache:
  "get_cache_from_root scene_host hero_imported ''PREFAB_IMPORT_TEMP:prefab''
   = Inr ''PREFAB_IMPORT_TEMP:c027_shepherd_m00_tall_dancing_03''"
  by (simp add: get_cache_from_root_def hero_imported_eq scene_eval library_scene_def)

lemma hero_namespace:
  "new_namespace_of scene_host ''PREFAB_IMPORT_TEMP:prefab''
     ''PREFAB_IMPORT_TEMP:c027_shepherd_m00_tall_dancing_03'' hero_imported
   = Some (Inr ''hero_000'', hero_imported\<lparr>sc_current := '':''\<rparr>)"
proof -
  have attr: "cmds_attributeQuery scene_host hero_imported PREFAB_NAME_ATTR ''PREFAB_IMPORT_TEMP:prefab''"
    by (simp add: hero_imported_eq scene_eval library_scene_def PREFAB_NAME_ATTR_def)
  have g: "cmds_getAttr scene_host hero_imported (''PREFAB_IMPORT_TEMP:prefab'' @ ''.'' @ PREFAB_NAME_ATTR)
           = ''hero''"
    by (simp add: hero_imported_eq scene_eval library_scene_def PREFAB_NAME_ATTR_def)
  have u: "cmds_namespaceInfo scene_host (cmds_namespace_setNamespace scene_host '':'' hero_imported)
           = [''UI'', ''shared'', ''PREFAB_IMPORT_TEMP'']"
    by (simp add: hero_imported_eq scene_eval library_scene_def)
  have "namespace_from_root_loop [''UI'', ''shared'', ''PREFAB_IMPORT_TEMP''] ''hero'' 0
        = Some (''hero'' @ ''_'' @ format_03d 0)"
    by (rule root_loop_reaches) (simp_all add: format_03d_small)
  then have "get_namespace_from_root scene_host ''PREFAB_IMPORT_TEMP:prefab'' hero_imported
             = Some (Some ''hero_000'', hero_imported\<lparr>sc_current := '':''\<rparr>)"
    unfolding root_allocator[OF attr] g u by (simp add: format_03d_small scene_host_def)
  then show ?thesis by (simp add: new_namespace_of_def py_not_def)
qed

lemma hero_swap:
  "swap_namespace scene_host PrefabItem_IMPORT_NAMESPACE ''hero_000''
     (hero_imported\<lparr>sc_current := '':''\<rparr>)
   = (Inr (), snd (swap_namespace scene_host PrefabItem_IMPORT_NAMESPACE ''hero_000''
                     (hero_imported\<lparr>sc_current := '':''\<rparr>)))"
  by (simp add: swap_namespace_def Let_def hero_imported_eq scene_host_def library_scene_def
        PrefabItem_IMPORT_NAMESPACE_def)

lemma uncached_imported_eq:
  "uncached_imported =
     library_scene\<lparr>sc_nodes := [(''PrefabClusters'', ''transform'', []),
        (''PREFAB_IMPORT_TEMP:prefab'', ''transform'',
           [(''isPrefab'', ''True''), (''prefab_name'', ''hero'')])],
       sc_namespaces := [''UI'', ''shared'', ''PREFAB_IMPORT_TEMP'']\<rparr>"
  by (simp add: uncached_imported_def scene_eval library_scene_def uncached_file_def
        PrefabItem_IMPORT_NAMESPACE_def)

lemma uncached_import:
  "cmds_file_import scene_host ''uncached'' PrefabItem_IMPORT_NAMESPACE library_scene
   = ([''PREFAB_IMPORT_TEMP:prefab''], uncached_imported)"
  by (simp add: uncached_imported_def scene_eval library_scene_def uncached_file_def
        PrefabItem_IMPORT_NAMESPACE_def prod_eq_iff)

lemma format_d_5: "format_d 5 = ''5''"
  by (simp add: format_d.simps digit_char_def)

lemma crowd_namespace: "cluster_new_namespace ''PREFAB_CLUSTER:crowd'' = ''crowd_5''"
proof -
  have "length ''crowd'' = 5" by simp
  then show ?thesis
    by (simp add: cluster_new_namespace_def Let_def format_d_5 del: list.size)
qed

lemma crowd_first_load:
  "PrefabClusterItem_load_imported scene_host ''crowd'' [] library_scene
   = (Inr (), library_scene\<lparr>
        sc_nodes := [(''PrefabClusters'', ''transform'', []),
                     (''crowd_5:crowd'', ''transform'', [(''isPrefabCluster'', ''True'')]),
                     (''crowd_5:extra'', ''transform'', [])],
        sc_children := [(''crowd_5:crowd'', [''crowd_5:extra''])],
        sc_parents := [(''crowd_5:crowd'', ''PrefabClusters'')],
        sc_namespaces := [''UI'', ''shared'', ''crowd_5'']\<rparr>)"
  by (simp add: PrefabClusterItem_load_imported_def PrefabClusterItem_transferPath_def
        PrefabClusterItem_IMPORT_NAMESPACE_def PrefabClusterItem_load_root_def
        crowd_namespace swap_namespace_def py_not_def Let_def
        scene_eval library_scene_def crowd_file_def)

lemma crowd_loaded_eq:
  "crowd_loaded = library_scene\<lparr>
        sc_nodes := [(''PrefabClusters'', ''transform'', []),
                     (''crowd_5:crowd'', ''transform'', [(''isPrefabCluster'', ''True'')]),
                     (''crowd_5:extra'', ''transform'', [])],
        sc_children := [(''crowd_5:crowd'', [''crowd_5:extra''])],
        sc_parents := [(''crowd_5:crowd'', ''PrefabClusters'')],
        sc_namespaces := [''UI'', ''shared'', ''crowd_5'']\<rparr>"
  by (simp add: crowd_loaded_def crowd_first_load)







lemma crowd_bare_import:
  "cmds_file_import scene_host (PrefabClusterItem_transferPath ''crowd'')
     PrefabClusterItem_IMPORT_NAMESPACE bare_scene
   = ([''PREFAB_CLUSTER:crowd'', ''PREFAB_CLUSTER:extra''],
      bare_scene\<lparr>sc_nodes := [(''PREFAB_CLUSTER:crowd'', ''transform'', [(''isPrefabCluster'', ''True'')]),
                                 (''PREFAB_CLUSTER:extra'', ''transform'', [])],
                   sc_children := [(''PREFAB_CLUSTER:crowd'', [''PREFAB_CLUSTER:extra''])],
                   sc_namespaces := [''UI'', ''shared'', ''PREFAB_CLUSTER'']\<rparr>)"
  by (simp add: bare_scene_def scene_eval library_scene_def crowd_file_def
        PrefabClusterItem_transferPath_def PrefabClusterItem_IMPORT_NAMESPACE_def)

lemma crowd_bare_load:
  "PrefabClusterItem_load_imported scene_host ''crowd'' [] bare_scene
   = (Inl (RuntimeError ''No object matches name''),
      bare_scene\<lparr>sc_nodes := [(''PREFAB_CLUSTER:crowd'', ''transform'', [(''isPrefabCluster'', ''True'')]),
                                 (''PREFAB_CLUSTER:extra'', ''transform'', [])],
                   sc_children := [(''PREFAB_CLUSTER:crowd'', [''PREFAB_CLUSTER:extra''])],
                   sc_namespaces := [''UI'', ''shared'', ''PREFAB_CLUSTER'']\<rparr>)"
  unfolding PrefabClusterItem_load_imported_def crowd_bare_import
  by (simp add: PrefabClusterItem_load_root_def py_not_def Let_def
        bare_scene_def scene_eval library_scene_def)

lemma refusing_create:
  "cmds_objExists_raises refusing_host library_scene ''__Prefabs__'' = None
   \<and> \<not> cmds_objExists refusing_host library_scene ''__Prefabs__''
   \<and> cmds_createNode refusing_host ''transform'' ''__Prefabs__'' library_scene
       = (Inl ''Cannot create node'', library_scene)"
  by (simp add: refusing_host_def scene_eval library_scene_def)

section \<open>The claims\<close>

text \<open>
  C9. The search loop of the namespace allocator terminates and raises nothing. The loop of
  \<open>get_namespace_from_root\<close> returns a namespace for every base string and every list of
  namespaces, so \<open>get_namespace_from_root\<close> always returns; the loop of
  \<open>get_namespace_from_cache\<close> returns a namespace whenever the scene holds finitely many
  nodes, and then \<open>get_namespace_from_cache\<close> returns too.
\<close>

theorem allocator_loops_terminate:
  "(\<exists>ns. namespace_from_root_loop all_namespaces base_namespace 0 = Some ns)
   \<and> get_namespace_from_root h root_node s \<noteq> None
   \<and> (finite {x. cmds_objExists h s x} \<longrightarrow>
        (\<exists>ns. namespace_from_cache_loop (cmds_objExists h s) flds 0 = Some ns)
        \<and> get_namespace_from_cache h s cacheNode \<noteq> None)"
proof (intro conjI impI)
  show "\<exists>ns. namespace_from_root_loop all_namespaces base_namespace 0 = Some ns"
    using root_loop_returns[of all_namespaces base_namespace] by blast
next
  show "get_namespace_from_root h root_node s \<noteq> None"
    using root_loop_returns[of "cmds_namespaceInfo h (cmds_namespace_setNamespace h '':'' s)"
                               "cmds_getAttr h s (root_node @ ''.'' @ PREFAB_NAME_ATTR)"]
    by (auto simp: get_namespace_from_root_def Let_def)
next
  assume fin: "finite {x. cmds_objExists h s x}"
  obtain a b c d e where flds: "flds = (a, b, c, d, e)" by (cases flds)
  show "\<exists>ns. namespace_from_cache_loop (cmds_objExists h s) flds 0 = Some ns"
    unfolding flds using cache_loop_returns[OF fin, of a b c d e] by blast
next
  assume fin: "finite {x. cmds_objExists h s x}"
  show "get_namespace_from_cache h s cacheNode \<noteq> None"
  proof (cases "cache_name_fields cacheNode")
    case (Inl e)
    then show ?thesis by (simp add: get_namespace_from_cache_def)
  next
    case (Inr t)
    obtain a b c d e f where t: "t = (a, b, c, d, e, f)" by (cases t)
    from cache_loop_returns[OF fin, of a b c d e] Inr t show ?thesis
      by (auto simp: get_namespace_from_cache_def)
  qed
qed

theorem allocator_loops_terminate_witness:
  "finite {x. cmds_objExists scene_host library_scene x}
   \<and> (\<exists>ns. namespace_from_cache_loop (cmds_objExists scene_host library_scene)
              (''c027'', ''shepherd'', ''m00'', ''tall'', ''dancing'') 0 = Some ns)
   \<and> get_namespace_from_cache scene_host library_scene ''c027_shepherd_m00_tall_dancing_03'' \<noteq> None
   \<and> (\<exists>ns. namespace_from_root_loop [''hero_000''] ''hero'' 0 = Some ns)"
  using allocator_loops_terminate[of "[''hero_000'']" "''hero''" scene_host "''root''" library_scene
          "(''c027'', ''shepherd'', ''m00'', ''tall'', ''dancing'')"
          "''c027_shepherd_m00_tall_dancing_03''"]
        scene_finite[of library_scene]
  by blast

text \<open>
  C1, as amended. \<open>get_namespace_from_root\<close>, on a root that records a base namespace,
  returns \<open>base_{n:03d}\<close> for the smallest \<open>n\<close> whose candidate is not in the list of
  namespaces the scene reports, so the result is never a member of that used-set; with the
  used-set \<open>{base_000, base_001}\<close> it is \<open>base_002\<close>, with an empty used-set it is
  \<open>base_000\<close>. \<open>get_namespace_from_cache\<close>, on a cache node with six fields in a scene
  of finitely many nodes, returns \<open>base_{n:03d}\<close> for the smallest \<open>n\<close> for which the
  node \<open>base_n:prefab\<close> does not exist; it does not read the namespaces of the scene.
\<close>

theorem namespace_allocator_smallest_free:
  "(cmds_attributeQuery h s PREFAB_NAME_ATTR root_node \<longrightarrow>
      (let base = cmds_getAttr h s (root_node @ ''.'' @ PREFAB_NAME_ATTR);
           s1 = cmds_namespace_setNamespace h '':'' s;
           used = cmds_namespaceInfo h s1
       in (\<exists>n. get_namespace_from_root h root_node s = Some (Some (base @ ''_'' @ format_03d n), s1)
                \<and> base @ ''_'' @ format_03d n \<notin> set used
                \<and> (\<forall>m<n. base @ ''_'' @ format_03d m \<in> set used))
          \<and> (set used = {base @ ''_000'', base @ ''_001''} \<longrightarrow>
                get_namespace_from_root h root_node s = Some (Some (base @ ''_002''), s1))
          \<and> (used = [] \<longrightarrow>
                get_namespace_from_root h root_node s = Some (Some (base @ ''_000''), s1))))
   \<and> (finite {x. cmds_objExists h s x}
        \<and> cache_name_fields cacheNode = Inr (a, b, c, d, e, v) \<longrightarrow>
      (let base = a @ ''_'' @ b @ ''_'' @ c @ ''_'' @ d @ ''_'' @ e
       in \<exists>n. get_namespace_from_cache h s cacheNode = Some (Inr (base @ ''_'' @ format_03d n))
               \<and> \<not> cmds_objExists h s ((base @ ''_'' @ format_03d n) @ '':prefab'')
               \<and> (\<forall>m<n. cmds_objExists h s ((base @ ''_'' @ format_03d m) @ '':prefab''))))"
proof (intro conjI impI)
  assume attr: "cmds_attributeQuery h s PREFAB_NAME_ATTR root_node"
  define base where "base = cmds_getAttr h s (root_node @ ''.'' @ PREFAB_NAME_ATTR)"
  define s1 where "s1 = cmds_namespace_setNamespace h '':'' s"
  define used where "used = cmds_namespaceInfo h s1"
  have eq: "get_namespace_from_root h root_node s =
            (case namespace_from_root_loop used base 0 of None \<Rightarrow> None
             | Some namespace \<Rightarrow> Some (Some namespace, s1))"
    unfolding used_def s1_def base_def by (rule root_allocator[OF attr])
  have A: "\<exists>n. get_namespace_from_root h root_node s = Some (Some (base @ ''_'' @ format_03d n), s1)
                  \<and> base @ ''_'' @ format_03d n \<notin> set used
                  \<and> (\<forall>m<n. base @ ''_'' @ format_03d m \<in> set used)"
    using root_loop_returns[of used base] by (auto simp: eq)
  have B: "get_namespace_from_root h root_node s = Some (Some (base @ ''_002''), s1)"
    if "set used = {base @ ''_000'', base @ ''_001''}"
  proof -
    have "namespace_from_root_loop used base 0 = Some (base @ ''_'' @ format_03d 2)"
      by (rule root_loop_reaches)
         (use that in \<open>auto simp: format_03d_small format_03d_Suc_0 less_2_cases_iff\<close>)
    then show ?thesis by (simp add: eq format_03d_small)
  qed
  have C: "get_namespace_from_root h root_node s = Some (Some (base @ ''_000''), s1)"
    if "used = []"
  proof -
    have "namespace_from_root_loop used base 0 = Some (base @ ''_'' @ format_03d 0)"
      by (rule root_loop_reaches) (use that in auto)
    then show ?thesis by (simp add: eq format_03d_small)
  qed
  from A B C show "let base = cmds_getAttr h s (root_node @ ''.'' @ PREFAB_NAME_ATTR);
           s1 = cmds_namespace_setNamespace h '':'' s;
           used = cmds_namespaceInfo h s1
       in (\<exists>n. get_namespace_from_root h root_node s = Some (Some (base @ ''_'' @ format_03d n), s1)
                \<and> base @ ''_'' @ format_03d n \<notin> set used
                \<and> (\<forall>m<n. base @ ''_'' @ format_03d m \<in> set used))
          \<and> (set used = {base @ ''_000'', base @ ''_001''} \<longrightarrow>
                get_namespace_from_root h root_node s = Some (Some (base @ ''_002''), s1))
          \<and> (used = [] \<longrightarrow>
                get_namespace_from_root h root_node s = Some (Some (base @ ''_000''), s1))"
    unfolding Let_def base_def[symmetric] s1_def[symmetric] used_def[symmetric] by blast
next
  assume "finite {x. cmds_objExists h s x} \<and> cache_name_fields cacheNode = Inr (a, b, c, d, e, v)"
  then have fin: "finite {x. cmds_objExists h s x}"
    and flds: "cache_name_fields cacheNode = Inr (a, b, c, d, e, v)" by simp_all
  from cache_loop_returns[OF fin, of a b c d e]
  show "let base = a @ ''_'' @ b @ ''_'' @ c @ ''_'' @ d @ ''_'' @ e
       in \<exists>n. get_namespace_from_cache h s cacheNode = Some (Inr (base @ ''_'' @ format_03d n))
               \<and> \<not> cmds_objExists h s ((base @ ''_'' @ format_03d n) @ '':prefab'')
               \<and> (\<forall>m<n. cmds_objExists h s ((base @ ''_'' @ format_03d m) @ '':prefab''))"
    by (auto simp: Let_def get_namespace_from_cache_def flds)
qed

theorem namespace_allocator_smallest_free_witness:
  "cmds_attributeQuery scene_host hero_scene PREFAB_NAME_ATTR ''PREFAB_IMPORT_TEMP:prefab''
   \<and> get_namespace_from_root scene_host ''PREFAB_IMPORT_TEMP:prefab'' hero_scene
       = Some (Some ''hero_002'', hero_scene\<lparr>sc_current := '':''\<rparr>)
   \<and> finite {x. cmds_objExists scene_host hero_scene x}
   \<and> cache_name_fields ''c027_shepherd_m00_tall_dancing_03''
       = Inr (''c027'', ''shepherd'', ''m00'', ''tall'', ''dancing'', ''03'')
   \<and> (\<exists>n. get_namespace_from_cache scene_host hero_scene ''c027_shepherd_m00_tall_dancing_03''
            = Some (Inr (''c027_shepherd_m00_tall_dancing'' @ ''_'' @ format_03d n)))"
proof -
  have h: "cmds_attributeQuery scene_host hero_scene PREFAB_NAME_ATTR ''PREFAB_IMPORT_TEMP:prefab''"
    by (simp add: scene_host_def hero_scene_def sc_attributeQuery_def PREFAB_NAME_ATTR_def)
  have g: "cmds_getAttr scene_host hero_scene (''PREFAB_IMPORT_TEMP:prefab'' @ ''.'' @ PREFAB_NAME_ATTR)
           = ''hero''"
    by (simp add: scene_host_def hero_scene_def sc_getAttr_def PREFAB_NAME_ATTR_def)
  have u: "set (cmds_namespaceInfo scene_host (cmds_namespace_setNamespace scene_host '':'' hero_scene))
           = {''hero'' @ ''_000'', ''hero'' @ ''_001''}"
    by (simp add: scene_host_def hero_scene_def)
  have s1: "cmds_namespace_setNamespace scene_host '':'' hero_scene = hero_scene\<lparr>sc_current := '':''\<rparr>"
    by (simp add: scene_host_def)
  note T = namespace_allocator_smallest_free[of scene_host hero_scene "''PREFAB_IMPORT_TEMP:prefab''"
             "''c027_shepherd_m00_tall_dancing_03''" "''c027''" "''shepherd''" "''m00''" "''tall''"
             "''dancing''" "''03''"]
  have root: "get_namespace_from_root scene_host ''PREFAB_IMPORT_TEMP:prefab'' hero_scene
       = Some (Some ''hero_002'', hero_scene\<lparr>sc_current := '':''\<rparr>)"
    using T h u unfolding Let_def g s1 by simp
  have cache: "\<exists>n. get_namespace_from_cache scene_host hero_scene ''c027_shepherd_m00_tall_dancing_03''
            = Some (Inr (''c027_shepherd_m00_tall_dancing'' @ ''_'' @ format_03d n))"
    using T scene_finite[of hero_scene] cache_fields_example unfolding Let_def by auto
  from h root cache scene_finite[of hero_scene] cache_fields_example show ?thesis by blast
qed

text \<open>
  C7. The two variants of the allocator are not equivalent. In \<open>stale_scene\<close> the root
  records the base \<open>c027_shepherd_m00_tall_dancing\<close> and is linked to the cache node
  \<open>c027_shepherd_m00_tall_dancing_03\<close>, which spells the same base; the namespace
  \<open>c027_shepherd_m00_tall_dancing_000\<close> exists and the node
  \<open>c027_shepherd_m00_tall_dancing_000:prefab\<close> does not. \<open>get_namespace_from_root\<close>
  chooses instance 001, \<open>get_namespace_from_cache\<close> chooses instance 000.
\<close>


theorem allocator_variants_differ:
  "cmds_getAttr scene_host stale_scene (''PREFAB_IMPORT_TEMP:prefab'' @ ''.'' @ PREFAB_NAME_ATTR)
     = ''c027_shepherd_m00_tall_dancing''
   \<and> get_cache_from_root scene_host stale_scene ''PREFAB_IMPORT_TEMP:prefab''
     = Inr ''PREFAB_IMPORT_TEMP:c027_shepherd_m00_tall_dancing_03''
   \<and> get_namespace_from_root scene_host ''PREFAB_IMPORT_TEMP:prefab'' stale_scene
     = Some (Some ''c027_shepherd_m00_tall_dancing_001'', stale_scene\<lparr>sc_current := '':''\<rparr>)
   \<and> get_namespace_from_cache scene_host stale_scene
        ''PREFAB_IMPORT_TEMP:c027_shepherd_m00_tall_dancing_03''
     = Some (Inr ''c027_shepherd_m00_tall_dancing_000'')"
proof (intro conjI)
  show g: "cmds_getAttr scene_host stale_scene (''PREFAB_IMPORT_TEMP:prefab'' @ ''.'' @ PREFAB_NAME_ATTR)
     = ''c027_shepherd_m00_tall_dancing''"
    by (simp add: scene_host_def stale_scene_def sc_getAttr_def PREFAB_NAME_ATTR_def)
  show "get_cache_from_root scene_host stale_scene ''PREFAB_IMPORT_TEMP:prefab''
     = Inr ''PREFAB_IMPORT_TEMP:c027_shepherd_m00_tall_dancing_03''"
    by (simp add: get_cache_from_root_def scene_host_def stale_scene_def sc_attributeQuery_def)
  have attr: "cmds_attributeQuery scene_host stale_scene PREFAB_NAME_ATTR ''PREFAB_IMPORT_TEMP:prefab''"
    by (simp add: scene_host_def stale_scene_def sc_attributeQuery_def PREFAB_NAME_ATTR_def)
  have "namespace_from_root_loop
          [''UI'', ''shared'', ''c027_shepherd_m00_tall_dancing_000'', ''PREFAB_IMPORT_TEMP'']
          ''c027_shepherd_m00_tall_dancing'' 0
        = Some (''c027_shepherd_m00_tall_dancing'' @ ''_'' @ format_03d 1)"
    by (rule root_loop_reaches) (simp_all add: format_03d_small format_03d_Suc_0)
  then show "get_namespace_from_root scene_host ''PREFAB_IMPORT_TEMP:prefab'' stale_scene
     = Some (Some ''c027_shepherd_m00_tall_dancing_001'', stale_scene\<lparr>sc_current := '':''\<rparr>)"
    unfolding root_allocator[OF attr] g
    by (simp add: scene_host_def stale_scene_def format_03d_small format_03d_Suc_0)
  have "namespace_from_cache_loop (cmds_objExists scene_host stale_scene)
          (''c027'', ''shepherd'', ''m00'', ''tall'', ''dancing'') 0
        = Some (''c027'' @ ''_'' @ ''shepherd'' @ ''_'' @ ''m00'' @ ''_'' @ ''tall'' @ ''_''
                @ ''dancing'' @ ''_'' @ format_03d 0)"
    by (rule cache_loop_reaches)
       (simp_all add: format_03d_small scene_host_def stale_scene_def sc_objExists_def)
  then show "get_namespace_from_cache scene_host stale_scene
        ''PREFAB_IMPORT_TEMP:c027_shepherd_m00_tall_dancing_03''
     = Some (Inr ''c027_shepherd_m00_tall_dancing_000'')"
    by (simp add: get_namespace_from_cache_def cache_fields_example_ns format_03d_small)
qed

text \<open>
  C4. The cache-node name parser (lines 195 to 202 of \<open>get_namespace_from_cache\<close>)
  succeeds exactly when the short name of the cache node, which is what follows its last
  colon, splits on underscores into exactly six fields, and then yields those six fields in
  order; for every other field count it raises the \<open>ValueError\<close> of line 198, and so does
  \<open>get_namespace_from_cache\<close>. Six fields without underscore or colon, joined by
  underscores, are parsed back into themselves.
\<close>

theorem cache_name_parser:
  "((cache_name_fields cacheNode = Inr (a, b, c, d, e, v))
      = (split_on (CHR ''_'') (last (split_on (CHR '':'') cacheNode)) = [a, b, c, d, e, v]))
   \<and> ((\<exists>m. cache_name_fields cacheNode = Inl (ValueError m))
      = (length (split_on (CHR ''_'') (last (split_on (CHR '':'') cacheNode))) \<noteq> 6))
   \<and> ((\<exists>err. get_namespace_from_cache h s cacheNode = Some (Inl err))
      = (length (split_on (CHR ''_'') (last (split_on (CHR '':'') cacheNode))) \<noteq> 6))
   \<and> ((\<forall>f \<in> set [a, b, c, d, e, v]. CHR ''_'' \<notin> set f \<and> CHR '':'' \<notin> set f) \<longrightarrow>
        cache_name_fields (join ''_'' [a, b, c, d, e, v]) = Inr (a, b, c, d, e, v))"
  using cache_name_fields_Inr[of cacheNode a b c d e v] cache_name_fields_Inl[of cacheNode]
        get_namespace_from_cache_raises[of h s cacheNode] cache_name_fields_Inl_any[of cacheNode]
        join_six_roundtrip[of a b c d e v]
  by blast

theorem cache_name_parser_witness:
  "list_all (\<lambda>f. CHR ''_'' \<notin> set f \<and> CHR '':'' \<notin> set f)
            [''c027'', ''shepherd'', ''m00'', ''tall'', ''dancing'', ''03'']
   \<and> cache_name_fields ''c027_shepherd_m00_tall_dancing_03''
       = Inr (''c027'', ''shepherd'', ''m00'', ''tall'', ''dancing'', ''03'')
   \<and> (\<exists>m. cache_name_fields ''badname'' = Inl (ValueError m))"
proof -
  have h: "\<forall>f \<in> set [''c027'', ''shepherd'', ''m00'', ''tall'', ''dancing'', ''03''].
       CHR ''_'' \<notin> set f \<and> CHR '':'' \<notin> set f" by simp
  have l: "length (split_on (CHR ''_'') (last (split_on (CHR '':'') ''badname''))) \<noteq> 6" by simp
  from cache_name_parser[of "''badname''" "''c027''" "''shepherd''" "''m00''" "''tall''"
         "''dancing''" "''03''" scene_host library_scene] h l
  show ?thesis by simp
qed

text \<open>
  C6. Both \<open>_load_imported\<close> methods take as root the first imported node of type
  \<open>transform\<close> that carries the marker attribute (\<open>isPrefab\<close>, \<open>isPrefabCluster\<close>) and
  go on with it; when no imported node matches they raise the root-not-found
  \<open>ValueError\<close> at once, in the scene as the import left it. When a node matches,
  \<open>PrefabItem._load_imported\<close> never ends in that error. Node names are not empty.
\<close>

theorem load_locates_first_root:
  "(cmds_file_import h path PrefabItem_IMPORT_NAMESPACE s = (new_nodes, s1) \<longrightarrow>
      ((\<not> (\<exists>x \<in> set new_nodes. cmds_nodeType h s1 x = ''transform''
                                \<and> cmds_attributeQuery h s1 ''isPrefab'' x)) \<longrightarrow>
         PrefabItem_load_imported h path kwargs s
           = Some (Inl (ValueError (''Could not find the prefab'' @ apos @ ''s root node'')), s1))
      \<and> (\<forall>pre x post.
            new_nodes = pre @ x # post \<and> x \<noteq> []
            \<and> cmds_nodeType h s1 x = ''transform'' \<and> cmds_attributeQuery h s1 ''isPrefab'' x
            \<and> (\<forall>y \<in> set pre. \<not> (cmds_nodeType h s1 y = ''transform''
                                  \<and> cmds_attributeQuery h s1 ''isPrefab'' y)) \<longrightarrow>
            PrefabItem_load_imported h path kwargs s = PrefabItem_load_root h x s1
            \<and> (\<forall>s'. PrefabItem_load_imported h path kwargs s
                  \<noteq> Some (Inl (ValueError (''Could not find the prefab'' @ apos @ ''s root node'')), s'))))
   \<and> (cmds_file_import h (PrefabClusterItem_transferPath cpath) PrefabClusterItem_IMPORT_NAMESPACE s
        = (cluster_nodes, c1) \<longrightarrow>
      ((\<not> (\<exists>x \<in> set cluster_nodes. cmds_nodeType h c1 x = ''transform''
                                    \<and> cmds_attributeQuery h c1 ''isPrefabCluster'' x)) \<longrightarrow>
         PrefabClusterItem_load_imported h cpath kwargs s
           = (Inl (ValueError (''Could not find the prefab cluster'' @ apos @ ''s root node: ''
                               @ PrefabClusterItem_transferPath cpath)), c1))
      \<and> (\<forall>pre x post.
            cluster_nodes = pre @ x # post \<and> x \<noteq> []
            \<and> cmds_nodeType h c1 x = ''transform'' \<and> cmds_attributeQuery h c1 ''isPrefabCluster'' x
            \<and> (\<forall>y \<in> set pre. \<not> (cmds_nodeType h c1 y = ''transform''
                                  \<and> cmds_attributeQuery h c1 ''isPrefabCluster'' y)) \<longrightarrow>
            PrefabClusterItem_load_imported h cpath kwargs s = PrefabClusterItem_load_root h x c1))"
proof (intro conjI impI allI)
  assume imp: "cmds_file_import h path PrefabItem_IMPORT_NAMESPACE s = (new_nodes, s1)"
    and none: "\<not> (\<exists>x \<in> set new_nodes. cmds_nodeType h s1 x = ''transform''
                                \<and> cmds_attributeQuery h s1 ''isPrefab'' x)"
  from none have "imported_root h s1 ''isPrefab'' new_nodes = None"
    by (simp add: imported_root_None_iff)
  then show "PrefabItem_load_imported h path kwargs s
           = Some (Inl (ValueError (''Could not find the prefab'' @ apos @ ''s root node'')), s1)"
    by (simp add: PrefabItem_load_imported_def imp py_not_def)
next
  fix pre x post
  assume imp: "cmds_file_import h path PrefabItem_IMPORT_NAMESPACE s = (new_nodes, s1)"
    and m: "new_nodes = pre @ x # post \<and> x \<noteq> []
            \<and> cmds_nodeType h s1 x = ''transform'' \<and> cmds_attributeQuery h s1 ''isPrefab'' x
            \<and> (\<forall>y \<in> set pre. \<not> (cmds_nodeType h s1 y = ''transform''
                                  \<and> cmds_attributeQuery h s1 ''isPrefab'' y))"
  then have "imported_root h s1 ''isPrefab'' new_nodes = Some x"
    using imported_root_first[of h s1 x "''isPrefab''" pre post] by blast
  with m have eq: "PrefabItem_load_imported h path kwargs s = PrefabItem_load_root h x s1"
    by (simp add: PrefabItem_load_imported_def imp py_not_def)
  then show "PrefabItem_load_imported h path kwargs s = PrefabItem_load_root h x s1" .
  fix s'
  show "PrefabItem_load_imported h path kwargs s
                  \<noteq> Some (Inl (ValueError (''Could not find the prefab'' @ apos @ ''s root node'')), s')"
    unfolding eq by (rule root_error_not_load_root)
next
  assume imp: "cmds_file_import h (PrefabClusterItem_transferPath cpath) PrefabClusterItem_IMPORT_NAMESPACE s
        = (cluster_nodes, c1)"
    and none: "\<not> (\<exists>x \<in> set cluster_nodes. cmds_nodeType h c1 x = ''transform''
                                    \<and> cmds_attributeQuery h c1 ''isPrefabCluster'' x)"
  from none have "imported_root h c1 ''isPrefabCluster'' cluster_nodes = None"
    by (simp add: imported_root_None_iff)
  then show "PrefabClusterItem_load_imported h cpath kwargs s
           = (Inl (ValueError (''Could not find the prefab cluster'' @ apos @ ''s root node: ''
                               @ PrefabClusterItem_transferPath cpath)), c1)"
    by (simp add: PrefabClusterItem_load_imported_def imp py_not_def)
next
  fix pre x post
  assume imp: "cmds_file_import h (PrefabClusterItem_transferPath cpath) PrefabClusterItem_IMPORT_NAMESPACE s
        = (cluster_nodes, c1)"
    and m: "cluster_nodes = pre @ x # post \<and> x \<noteq> []
            \<and> cmds_nodeType h c1 x = ''transform'' \<and> cmds_attributeQuery h c1 ''isPrefabCluster'' x
            \<and> (\<forall>y \<in> set pre. \<not> (cmds_nodeType h c1 y = ''transform''
                                  \<and> cmds_attributeQuery h c1 ''isPrefabCluster'' y))"
  then have "imported_root h c1 ''isPrefabCluster'' cluster_nodes = Some x"
    using imported_root_first[of h c1 x "''isPrefabCluster''" pre post] by blast
  with m show "PrefabClusterItem_load_imported h cpath kwargs s = PrefabClusterItem_load_root h x c1"
    by (simp add: PrefabClusterItem_load_imported_def imp py_not_def)
qed

theorem load_locates_first_root_witness:
  "cmds_file_import scene_host ''hero'' PrefabItem_IMPORT_NAMESPACE library_scene
     = ([''PREFAB_IMPORT_TEMP:geo'', ''PREFAB_IMPORT_TEMP:prefab'',
         ''PREFAB_IMPORT_TEMP:c027_shepherd_m00_tall_dancing_03''],
        snd (cmds_file_import scene_host ''hero'' PrefabItem_IMPORT_NAMESPACE library_scene))
   \<and> PrefabItem_load_imported scene_host ''hero'' [] library_scene
     = PrefabItem_load_root scene_host ''PREFAB_IMPORT_TEMP:prefab''
         (snd (cmds_file_import scene_host ''hero'' PrefabItem_IMPORT_NAMESPACE library_scene))
   \<and> cmds_file_import scene_host ''nowhere'' PrefabItem_IMPORT_NAMESPACE library_scene
     = ([], snd (cmds_file_import scene_host ''nowhere'' PrefabItem_IMPORT_NAMESPACE library_scene))
   \<and> PrefabItem_load_imported scene_host ''nowhere'' [] library_scene
     = Some (Inl (ValueError (''Could not find the prefab'' @ apos @ ''s root node'')),
             snd (cmds_file_import scene_host ''nowhere'' PrefabItem_IMPORT_NAMESPACE library_scene))"
proof -
  let ?s1 = "snd (cmds_file_import scene_host ''hero'' PrefabItem_IMPORT_NAMESPACE library_scene)"
  have s1: "?s1 = snd (sc_file_import ''hero'' ''PREFAB_IMPORT_TEMP'' library_scene)"
    by (simp add: scene_host_def PrefabItem_IMPORT_NAMESPACE_def)
  have q: "cmds_nodeType scene_host ?s1 ''PREFAB_IMPORT_TEMP:prefab'' = ''transform''
           \<and> cmds_attributeQuery scene_host ?s1 ''isPrefab'' ''PREFAB_IMPORT_TEMP:prefab''"
    unfolding s1
    by (simp add: scene_host_def sc_file_import_def library_scene_def hero_file_def
          sc_nodeType_def sc_attributeQuery_def)
  have nq: "\<forall>y \<in> set [''PREFAB_IMPORT_TEMP:geo''].
              \<not> (cmds_nodeType scene_host ?s1 y = ''transform''
                 \<and> cmds_attributeQuery scene_host ?s1 ''isPrefab'' y)"
    unfolding s1
    by (simp add: scene_host_def sc_file_import_def library_scene_def hero_file_def
          sc_nodeType_def sc_attributeQuery_def)
  have found: "PrefabItem_load_imported scene_host ''hero'' [] library_scene
     = PrefabItem_load_root scene_host ''PREFAB_IMPORT_TEMP:prefab'' ?s1"
    using load_locates_first_root[of scene_host "''hero''" library_scene
            "[''PREFAB_IMPORT_TEMP:geo'', ''PREFAB_IMPORT_TEMP:prefab'',
              ''PREFAB_IMPORT_TEMP:c027_shepherd_m00_tall_dancing_03'']" ?s1 "[]",
            THEN conjunct1, THEN mp, OF hero_import, THEN conjunct2,
            THEN spec, of "[''PREFAB_IMPORT_TEMP:geo'']",
            THEN spec, of "''PREFAB_IMPORT_TEMP:prefab''",
            THEN spec, of "[''PREFAB_IMPORT_TEMP:c027_shepherd_m00_tall_dancing_03'']"]
          q nq
    by simp
  let ?s0 = "snd (cmds_file_import scene_host ''nowhere'' PrefabItem_IMPORT_NAMESPACE library_scene)"
  have imp0: "cmds_file_import scene_host ''nowhere'' PrefabItem_IMPORT_NAMESPACE library_scene = ([], ?s0)"
    by (simp add: scene_host_def sc_file_import_def library_scene_def prod_eq_iff)
  have missing: "PrefabItem_load_imported scene_host ''nowhere'' [] library_scene
     = Some (Inl (ValueError (''Could not find the prefab'' @ apos @ ''s root node'')), ?s0)"
    using load_locates_first_root[of scene_host "''nowhere''" library_scene "[]" ?s0 "[]",
            THEN conjunct1, THEN mp, OF imp0, THEN conjunct1]
    by simp
  from hero_import found imp0 missing show ?thesis by blast
qed

text \<open>
  C5. \<open>PrefabItem.save\<close> and \<open>PrefabClusterItem.save\<close> raise their \<open>ValueError\<close> and
  leave the scene as it is, so that no save is attempted, whenever the selected transforms
  that carry the marker attribute (\<open>isPrefab\<close>, \<open>isPrefabCluster\<close>) are not exactly one.
  With exactly one, \<open>PrefabItem.save\<close> is the generic save of \<open>MayaFileItem\<close>;
  \<open>PrefabClusterItem.save\<close> selects the node, parents it to the world, runs the generic
  save and parents the node to the cluster group, and an exception of the first parenting
  is what it raises instead.
\<close>

theorem save_requires_single_root:
  "(let sel = filter (\<lambda>x. cmds_attributeQuery h s ''isPrefab'' x) (cmds_ls_selection h s ''transform'')
    in (length sel \<noteq> 1 \<longrightarrow>
          PrefabItem_save h kwargs s
            = (Inl (ValueError (''Please select a single Prefab rig'' @ apos @ ''s root transform.'')), s))
       \<and> (length sel = 1 \<longrightarrow>
          PrefabItem_save h kwargs s = (Inr (), MayaFileItem_save h kwargs s)))
   \<and> (let sel = filter (\<lambda>x. cmds_attributeQuery h s ''isPrefabCluster'' x)
                    (cmds_ls_selection h s ''transform'')
      in (length sel \<noteq> 1 \<longrightarrow>
            PrefabClusterItem_save h kwargs s
              = (Inl (ValueError ''Please select a single PrefabCluster transform.''), s))
         \<and> (length sel = 1 \<longrightarrow>
              (\<forall>e s2. cmds_parent_world h (hd sel) (cmds_select h (hd sel) s) = (Inl e, s2) \<longrightarrow>
                  PrefabClusterItem_save h kwargs s = (Inl e, s2))
              \<and> (\<forall>s2. cmds_parent_world h (hd sel) (cmds_select h (hd sel) s) = (Inr (), s2) \<longrightarrow>
                  PrefabClusterItem_save h kwargs s
                    = (case cmds_parent h (hd sel) (clustersFn_ROOT_GROUP h)
                              (MayaFileItem_save h kwargs s2) of
                         (Inl e, s4) \<Rightarrow> (Inl e, s4)
                       | (Inr u, s4) \<Rightarrow> (Inr (), s4)))))"
  unfolding Let_def
proof (intro conjI impI allI)
  let ?sel = "filter (\<lambda>x. cmds_attributeQuery h s ''isPrefab'' x) (cmds_ls_selection h s ''transform'')"
  let ?csel = "filter (\<lambda>x. cmds_attributeQuery h s ''isPrefabCluster'' x) (cmds_ls_selection h s ''transform'')"
  {
    assume "length ?sel \<noteq> 1"
    then have "?sel = [] \<or> 1 < length ?sel" using not_single[of ?sel] by blast
    then show "PrefabItem_save h kwargs s
            = (Inl (ValueError (''Please select a single Prefab rig'' @ apos @ ''s root transform.'')), s)"
      by (simp add: PrefabItem_save_def Let_def)
  next
    assume "length ?sel = 1"
    then have "\<not> (?sel = [] \<or> 1 < length ?sel)" using not_single[of ?sel] by blast
    then show "PrefabItem_save h kwargs s = (Inr (), MayaFileItem_save h kwargs s)"
      by (simp add: PrefabItem_save_def Let_def)
  next
    assume "length ?csel \<noteq> 1"
    then have "?csel = [] \<or> 1 < length ?csel" using not_single[of ?csel] by blast
    then show "PrefabClusterItem_save h kwargs s
              = (Inl (ValueError ''Please select a single PrefabCluster transform.''), s)"
      by (simp add: PrefabClusterItem_save_def Let_def)
  next
    fix e s2
    assume "length ?csel = 1"
      and "cmds_parent_world h (hd ?csel) (cmds_select h (hd ?csel) s) = (Inl e, s2)"
    moreover from this have "\<not> (?csel = [] \<or> 1 < length ?csel)" using not_single[of ?csel] by blast
    ultimately show "PrefabClusterItem_save h kwargs s = (Inl e, s2)"
      by (simp add: PrefabClusterItem_save_def Let_def)
  next
    fix s2
    assume "length ?csel = 1"
      and "cmds_parent_world h (hd ?csel) (cmds_select h (hd ?csel) s) = (Inr (), s2)"
    moreover from this have "\<not> (?csel = [] \<or> 1 < length ?csel)" using not_single[of ?csel] by blast
    ultimately show "PrefabClusterItem_save h kwargs s
                    = (case cmds_parent h (hd ?csel) (clustersFn_ROOT_GROUP h)
                              (MayaFileItem_save h kwargs s2) of
                         (Inl e, s4) \<Rightarrow> (Inl e, s4)
                       | (Inr u, s4) \<Rightarrow> (Inr (), s4))"
      by (simp add: PrefabClusterItem_save_def Let_def)
  }
qed

theorem save_requires_single_root_witness:
  "length (filter (\<lambda>x. cmds_attributeQuery scene_host (selected [''rigA'', ''rigB'']) ''isPrefab'' x)
            (cmds_ls_selection scene_host (selected [''rigA'', ''rigB'']) ''transform'')) \<noteq> 1
   \<and> PrefabItem_save scene_host [] (selected [''rigA'', ''rigB''])
       = (Inl (ValueError (''Please select a single Prefab rig'' @ apos @ ''s root transform.'')),
          selected [''rigA'', ''rigB''])
   \<and> length (filter (\<lambda>x. cmds_attributeQuery scene_host (selected [''rigA'']) ''isPrefab'' x)
            (cmds_ls_selection scene_host (selected [''rigA'']) ''transform'')) = 1
   \<and> PrefabItem_save scene_host [] (selected [''rigA''])
       = (Inr (), (selected [''rigA''])\<lparr>sc_saved := [[''rigA'']]\<rparr>)
   \<and> length (filter (\<lambda>x. cmds_attributeQuery scene_host (selected [''crowd'']) ''isPrefabCluster'' x)
            (cmds_ls_selection scene_host (selected [''crowd'']) ''transform'')) = 1
   \<and> cmds_parent_world scene_host ''crowd'' (cmds_select scene_host ''crowd'' (selected [''crowd'']))
       = (Inr (), (selected [''crowd''])\<lparr>sc_parents := []\<rparr>)
   \<and> PrefabClusterItem_save scene_host [] (selected [''crowd''])
       = (Inr (), (selected [''crowd''])\<lparr>sc_saved := [[''crowd'']]\<rparr>)"
proof -
  have two: "filter (\<lambda>x. cmds_attributeQuery scene_host (selected [''rigA'', ''rigB'']) ''isPrefab'' x)
            (cmds_ls_selection scene_host (selected [''rigA'', ''rigB'']) ''transform'')
            = [''rigA'', ''rigB'']"
    by (simp add: scene_eval selected_def)
  have one: "filter (\<lambda>x. cmds_attributeQuery scene_host (selected [''rigA'']) ''isPrefab'' x)
            (cmds_ls_selection scene_host (selected [''rigA'']) ''transform'') = [''rigA'']"
    by (simp add: scene_eval selected_def)
  have cl: "filter (\<lambda>x. cmds_attributeQuery scene_host (selected [''crowd'']) ''isPrefabCluster'' x)
            (cmds_ls_selection scene_host (selected [''crowd'']) ''transform'') = [''crowd'']"
    by (simp add: scene_eval selected_def)
  have pw: "cmds_parent_world scene_host ''crowd'' (cmds_select scene_host ''crowd'' (selected [''crowd'']))
       = (Inr (), (selected [''crowd''])\<lparr>sc_parents := []\<rparr>)"
    by (simp add: scene_eval selected_def)
  have A: "PrefabItem_save scene_host [] (selected [''rigA'', ''rigB''])
       = (Inl (ValueError (''Please select a single Prefab rig'' @ apos @ ''s root transform.'')),
          selected [''rigA'', ''rigB''])"
    using save_requires_single_root[of scene_host "selected [''rigA'', ''rigB'']" "[]"] two
    by (simp add: Let_def)
  have B: "PrefabItem_save scene_host [] (selected [''rigA''])
       = (Inr (), (selected [''rigA''])\<lparr>sc_saved := [[''rigA'']]\<rparr>)"
    using save_requires_single_root[of scene_host "selected [''rigA'']" "[]"] one
    by (simp add: Let_def) (simp add: scene_host_def selected_def)
  have C: "PrefabClusterItem_save scene_host [] (selected [''crowd''])
       = (Inr (), (selected [''crowd''])\<lparr>sc_saved := [[''crowd'']]\<rparr>)"
    using save_requires_single_root[of scene_host "selected [''crowd'']" "[]"] cl pw
    by (simp add: Let_def) (simp add: scene_eval selected_def)
  from two one cl pw A B C show ?thesis by simp
qed

text \<open>
  C3, as amended. \<open>PrefabItem._load_imported\<close> looks up the cache node linked to the root
  first, and fails with the error of that lookup when it does not succeed, whether or not
  the root records a namespace. When the lookup succeeds and the root carries the
  \<open>prefab_name\<close> attribute, the final namespace is taken from that attribute and the
  cache node is not consulted; only otherwise is it derived from the cache node; and when
  that derivation raises, the load fails with the same error.
\<close>

theorem load_resolves_namespace:
  "(get_cache_from_root h s1 root_node = Inl e \<longrightarrow>
      PrefabItem_load_root h root_node s1 = Some (Inl e, s1))
   \<and> (get_cache_from_root h s1 root_node = Inr cache_node
        \<and> cmds_attributeQuery h s1 PREFAB_NAME_ATTR root_node \<longrightarrow>
      (\<exists>n. new_namespace_of h root_node cache_node s1
            = Some (Inr (cmds_getAttr h s1 (root_node @ ''.'' @ PREFAB_NAME_ATTR)
                         @ ''_'' @ format_03d n),
                    cmds_namespace_setNamespace h '':'' s1)))
   \<and> (get_cache_from_root h s1 root_node = Inr cache_node
        \<and> \<not> cmds_attributeQuery h s1 PREFAB_NAME_ATTR root_node \<longrightarrow>
      new_namespace_of h root_node cache_node s1
        = (case get_namespace_from_cache h s1 cache_node of
             None \<Rightarrow> None
           | Some v \<Rightarrow> Some (v, s1)))
   \<and> (get_cache_from_root h s1 root_node = Inr cache_node
        \<and> new_namespace_of h root_node cache_node s1 = Some (Inl e', s2) \<longrightarrow>
      PrefabItem_load_root h root_node s1 = Some (Inl e', s2))"
proof (intro conjI impI)
  assume "get_cache_from_root h s1 root_node = Inl e"
  then show "PrefabItem_load_root h root_node s1 = Some (Inl e, s1)"
    by (simp add: PrefabItem_load_root_def)
next
  assume a: "get_cache_from_root h s1 root_node = Inr cache_node
        \<and> cmds_attributeQuery h s1 PREFAB_NAME_ATTR root_node"
  then have attr: "cmds_attributeQuery h s1 PREFAB_NAME_ATTR root_node" by simp
  obtain n where "namespace_from_root_loop
                    (cmds_namespaceInfo h (cmds_namespace_setNamespace h '':'' s1))
                    (cmds_getAttr h s1 (root_node @ ''.'' @ PREFAB_NAME_ATTR)) 0
                  = Some (cmds_getAttr h s1 (root_node @ ''.'' @ PREFAB_NAME_ATTR)
                          @ ''_'' @ format_03d n)"
    using root_loop_returns by blast
  then have "new_namespace_of h root_node cache_node s1
            = Some (Inr (cmds_getAttr h s1 (root_node @ ''.'' @ PREFAB_NAME_ATTR)
                         @ ''_'' @ format_03d n),
                    cmds_namespace_setNamespace h '':'' s1)"
    by (simp add: new_namespace_of_def root_allocator[OF attr] py_not_def)
  then show "\<exists>n. new_namespace_of h root_node cache_node s1
            = Some (Inr (cmds_getAttr h s1 (root_node @ ''.'' @ PREFAB_NAME_ATTR)
                         @ ''_'' @ format_03d n),
                    cmds_namespace_setNamespace h '':'' s1)" by blast
next
  assume "get_cache_from_root h s1 root_node = Inr cache_node
        \<and> \<not> cmds_attributeQuery h s1 PREFAB_NAME_ATTR root_node"
  then show "new_namespace_of h root_node cache_node s1
        = (case get_namespace_from_cache h s1 cache_node of
             None \<Rightarrow> None
           | Some v \<Rightarrow> Some (v, s1))"
    by (simp add: new_namespace_of_def get_namespace_from_root_def py_not_def)
next
  assume "get_cache_from_root h s1 root_node = Inr cache_node
        \<and> new_namespace_of h root_node cache_node s1 = Some (Inl e', s2)"
  then show "PrefabItem_load_root h root_node s1 = Some (Inl e', s2)"
    by (simp add: PrefabItem_load_root_def)
qed

theorem load_resolves_namespace_witness:
  "get_cache_from_root scene_host hero_imported ''PREFAB_IMPORT_TEMP:prefab''
     = Inr ''PREFAB_IMPORT_TEMP:c027_shepherd_m00_tall_dancing_03''
   \<and> cmds_attributeQuery scene_host hero_imported PREFAB_NAME_ATTR ''PREFAB_IMPORT_TEMP:prefab''
   \<and> (\<exists>n. new_namespace_of scene_host ''PREFAB_IMPORT_TEMP:prefab''
              ''PREFAB_IMPORT_TEMP:c027_shepherd_m00_tall_dancing_03'' hero_imported
            = Some (Inr (''hero'' @ ''_'' @ format_03d n), hero_imported\<lparr>sc_current := '':''\<rparr>))
   \<and> get_cache_from_root scene_host uncached_imported ''PREFAB_IMPORT_TEMP:prefab''
     = Inl (ValueError (''The given node '' @ apos @ ''PREFAB_IMPORT_TEMP:prefab'' @ apos
                        @ '' has no USD cache linked to it!''))
   \<and> PrefabItem_load_root scene_host ''PREFAB_IMPORT_TEMP:prefab'' uncached_imported
     = Some (Inl (ValueError (''The given node '' @ apos @ ''PREFAB_IMPORT_TEMP:prefab'' @ apos
                              @ '' has no USD cache linked to it!'')), uncached_imported)"
proof -
  have attr: "cmds_attributeQuery scene_host hero_imported PREFAB_NAME_ATTR ''PREFAB_IMPORT_TEMP:prefab''"
    by (simp add: hero_imported_eq scene_eval library_scene_def PREFAB_NAME_ATTR_def)
  have g: "cmds_getAttr scene_host hero_imported (''PREFAB_IMPORT_TEMP:prefab'' @ ''.'' @ PREFAB_NAME_ATTR)
           = ''hero''"
    by (simp add: hero_imported_eq scene_eval library_scene_def PREFAB_NAME_ATTR_def)
  have st: "cmds_namespace_setNamespace scene_host '':'' hero_imported = hero_imported\<lparr>sc_current := '':''\<rparr>"
    by (simp add: scene_host_def)
  have c: "get_cache_from_root scene_host uncached_imported ''PREFAB_IMPORT_TEMP:prefab''
        = Inl (ValueError (''The given node '' @ apos @ ''PREFAB_IMPORT_TEMP:prefab'' @ apos
                                @ '' has no USD cache linked to it!''))"
    by (simp add: get_cache_from_root_def uncached_imported_eq scene_eval library_scene_def)
  have A: "\<exists>n. new_namespace_of scene_host ''PREFAB_IMPORT_TEMP:prefab''
              ''PREFAB_IMPORT_TEMP:c027_shepherd_m00_tall_dancing_03'' hero_imported
            = Some (Inr (''hero'' @ ''_'' @ format_03d n), hero_imported\<lparr>sc_current := '':''\<rparr>)"
    using load_resolves_namespace[of scene_host hero_imported "''PREFAB_IMPORT_TEMP:prefab''" _
            "''PREFAB_IMPORT_TEMP:c027_shepherd_m00_tall_dancing_03''",
            THEN conjunct2, THEN conjunct1, THEN mp, OF conjI, OF hero_cache attr]
    unfolding g st .
  have B: "PrefabItem_load_root scene_host ''PREFAB_IMPORT_TEMP:prefab'' uncached_imported
     = Some (Inl (ValueError (''The given node '' @ apos @ ''PREFAB_IMPORT_TEMP:prefab'' @ apos
                              @ '' has no USD cache linked to it!'')), uncached_imported)"
    using load_resolves_namespace[of scene_host uncached_imported "''PREFAB_IMPORT_TEMP:prefab''",
            THEN conjunct1, THEN mp, OF c] .
  from hero_cache attr A c B show ?thesis by blast
qed

text \<open>
  C3 as stated fails: the root imported from the item \<open>uncached\<close> carries the
  \<open>prefab_name\<close> attribute and has no \<open>usd_cycle_cache\<close> attribute, and the load
  raises the \<open>ValueError\<close> of \<open>get_cache_from_root\<close> instead of resolving a namespace.
\<close>

theorem load_needs_cache_counterexample:
  "cmds_attributeQuery scene_host uncached_imported PREFAB_NAME_ATTR ''PREFAB_IMPORT_TEMP:prefab''
   \<and> cmds_file_import scene_host ''uncached'' PrefabItem_IMPORT_NAMESPACE library_scene
       = ([''PREFAB_IMPORT_TEMP:prefab''], uncached_imported)
   \<and> imported_root scene_host uncached_imported ''isPrefab'' [''PREFAB_IMPORT_TEMP:prefab'']
       = Some ''PREFAB_IMPORT_TEMP:prefab''
   \<and> PrefabItem_load_imported scene_host ''uncached'' [] library_scene
       = Some (Inl (ValueError (''The given node '' @ apos @ ''PREFAB_IMPORT_TEMP:prefab'' @ apos
                                @ '' has no USD cache linked to it!'')), uncached_imported)"
proof (intro conjI)
  show "cmds_attributeQuery scene_host uncached_imported PREFAB_NAME_ATTR ''PREFAB_IMPORT_TEMP:prefab''"
    by (simp add: uncached_imported_eq scene_eval library_scene_def PREFAB_NAME_ATTR_def)
  show "cmds_file_import scene_host ''uncached'' PrefabItem_IMPORT_NAMESPACE library_scene
       = ([''PREFAB_IMPORT_TEMP:prefab''], uncached_imported)"
    by (rule uncached_import)
  show r: "imported_root scene_host uncached_imported ''isPrefab'' [''PREFAB_IMPORT_TEMP:prefab'']
       = Some ''PREFAB_IMPORT_TEMP:prefab''"
    by (simp add: uncached_imported_eq scene_eval library_scene_def)
  have c: "get_cache_from_root scene_host uncached_imported ''PREFAB_IMPORT_TEMP:prefab''
        = Inl (ValueError (''The given node '' @ apos @ ''PREFAB_IMPORT_TEMP:prefab'' @ apos
                                @ '' has no USD cache linked to it!''))"
    by (simp add: get_cache_from_root_def uncached_imported_eq scene_eval library_scene_def)
  show "PrefabItem_load_imported scene_host ''uncached'' [] library_scene
       = Some (Inl (ValueError (''The given node '' @ apos @ ''PREFAB_IMPORT_TEMP:prefab'' @ apos
                                @ '' has no USD cache linked to it!'')), uncached_imported)"
    unfolding PrefabItem_load_imported_def uncached_import
    by (simp only: Let_def prod.case r) (simp add: py_not_def PrefabItem_load_root_def c)
qed

text \<open>
  C2, on the code. The claim asks that loading the same item twice yields two distinct
  namespaces, none of which exists in the scene when it is chosen.
  \<open>PrefabClusterItem._load_imported\<close> computes the namespace from the name of the root
  alone: line 269 tests the string \<open>duplicate_cluster\<close> and line 270 appends its length,
  where line 268 had just listed the existing \<open>duplicate_clusters\<close>. Loading the cluster
  item \<open>crowd\<close> twice into the library scene succeeds twice; the first load creates the
  namespace \<open>crowd_5\<close>, the second chooses \<open>crowd_5\<close> again while it exists, and the
  scene ends with that one namespace.
\<close>

theorem cluster_load_twice_collides:
  "fst (PrefabClusterItem_load_imported scene_host ''crowd'' [] library_scene) = Inr ()
   \<and> cmds_namespaceInfo scene_host crowd_loaded = [''UI'', ''shared'', ''crowd_5'']
   \<and> fst (cmds_file_import scene_host (PrefabClusterItem_transferPath ''crowd'')
             PrefabClusterItem_IMPORT_NAMESPACE crowd_loaded)
       = [''PREFAB_CLUSTER:crowd'', ''PREFAB_CLUSTER:extra'']
   \<and> cluster_new_namespace ''PREFAB_CLUSTER:crowd'' = ''crowd_5''
   \<and> cmds_namespace_exists scene_host crowd_loaded (cluster_new_namespace ''PREFAB_CLUSTER:crowd'')
   \<and> fst (PrefabClusterItem_load_imported scene_host ''crowd'' [] crowd_loaded) = Inr ()
   \<and> cmds_namespaceInfo scene_host
         (snd (PrefabClusterItem_load_imported scene_host ''crowd'' [] crowd_loaded))
       = [''UI'', ''shared'', ''crowd_5'']"
proof (intro conjI)
  show "fst (PrefabClusterItem_load_imported scene_host ''crowd'' [] library_scene) = Inr ()"
    by (simp add: crowd_first_load)
  show "cmds_namespaceInfo scene_host crowd_loaded = [''UI'', ''shared'', ''crowd_5'']"
    by (simp add: crowd_loaded_eq scene_host_def)
  show "fst (cmds_file_import scene_host (PrefabClusterItem_transferPath ''crowd'')
             PrefabClusterItem_IMPORT_NAMESPACE crowd_loaded)
       = [''PREFAB_CLUSTER:crowd'', ''PREFAB_CLUSTER:extra'']"
    by (simp add: crowd_loaded_eq scene_eval library_scene_def crowd_file_def
          PrefabClusterItem_transferPath_def PrefabClusterItem_IMPORT_NAMESPACE_def)
  show "cluster_new_namespace ''PREFAB_CLUSTER:crowd'' = ''crowd_5''"
    by (rule crowd_namespace)
  show "cmds_namespace_exists scene_host crowd_loaded (cluster_new_namespace ''PREFAB_CLUSTER:crowd'')"
    by (simp add: crowd_namespace crowd_loaded_eq scene_host_def)
  have second: "PrefabClusterItem_load_imported scene_host ''crowd'' [] crowd_loaded
     = (Inr (), snd (PrefabClusterItem_load_imported scene_host ''crowd'' [] crowd_loaded))
     \<and> sc_namespaces (snd (PrefabClusterItem_load_imported scene_host ''crowd'' [] crowd_loaded))
       = [''UI'', ''shared'', ''crowd_5'']"
    by (simp add: PrefabClusterItem_load_imported_def PrefabClusterItem_transferPath_def
        PrefabClusterItem_IMPORT_NAMESPACE_def PrefabClusterItem_load_root_def
        crowd_namespace swap_namespace_def py_not_def Let_def
        scene_eval library_scene_def crowd_file_def crowd_loaded_eq)
  then show "fst (PrefabClusterItem_load_imported scene_host ''crowd'' [] crowd_loaded) = Inr ()"
    by (metis fst_conv)
  from second show "cmds_namespaceInfo scene_host
         (snd (PrefabClusterItem_load_imported scene_host ''crowd'' [] crowd_loaded))
       = [''UI'', ''shared'', ''crowd_5'']"
    by (simp add: scene_host_def)
qed




text \<open>
  C10, as amended. \<open>group_prefab\<close> and \<open>group_prefab_cluster\<close> do not raise on account
  of the parenting: an exception of \<open>cmds.objExists\<close> or \<open>cmds.createNode\<close>, the two
  calls before the \<open>try\<close>, propagates; when neither raises, the group is the existing
  node or the one just created, and the functions return \<open>False\<close> when \<open>cmds.parent\<close>
  raises and \<open>True\<close> when it does not. So \<open>PrefabItem._load_imported\<close>, once the
  namespace has been swapped and those two calls have not raised, returns normally
  whatever the final parenting did. \<open>PrefabClusterItem._load_imported\<close> does not call
  \<open>group_prefab_cluster\<close>: an exception of its own \<open>cmds.parent\<close> is what it raises.
\<close>

theorem group_prefab_catches_parent:
  "(cmds_objExists_raises h s group_name = Some m \<longrightarrow>
      group_prefab h root_node group_name s = (Inl (RuntimeError m), s)
      \<and> group_prefab_cluster h root_node group_name s = (Inl (RuntimeError m), s))
   \<and> (cmds_objExists_raises h s group_name = None \<and> \<not> cmds_objExists h s group_name
        \<and> cmds_createNode h ''transform'' group_name s = (Inl m', s1) \<longrightarrow>
      group_prefab h root_node group_name s = (Inl (RuntimeError m'), s1)
      \<and> group_prefab_cluster h root_node group_name s = (Inl (RuntimeError m'), s1))
   \<and> (cmds_objExists_raises h s group_name = None
        \<and> (if \<not> cmds_objExists h s group_name
            then cmds_createNode h ''transform'' group_name s
            else (Inr group_name, s)) = (Inr grp, s2) \<longrightarrow>
      (\<forall>e s3. cmds_parent h root_node grp s2 = (Inl e, s3) \<longrightarrow>
           group_prefab h root_node group_name s = (Inr False, s3)
           \<and> group_prefab_cluster h root_node group_name s = (Inr False, s3))
      \<and> (\<forall>s3. cmds_parent h root_node grp s2 = (Inr (), s3) \<longrightarrow>
           group_prefab h root_node group_name s = (Inr True, s3)
           \<and> group_prefab_cluster h root_node group_name s = (Inr True, s3)))
   \<and> (get_cache_from_root h s root_node = Inr cache_node
        \<and> new_namespace_of h root_node cache_node s = Some (Inr new_namespace, t2)
        \<and> swap_namespace h PrefabItem_IMPORT_NAMESPACE new_namespace t2 = (Inr (), t3)
        \<and> cmds_objExists_raises h t3 ''__Prefabs__'' = None
        \<and> (if \<not> cmds_objExists h t3 ''__Prefabs__''
            then cmds_createNode h ''transform'' ''__Prefabs__'' t3
            else (Inr ''__Prefabs__'', t3)) = (Inr grp', t4) \<longrightarrow>
      PrefabItem_load_root h root_node s
        = Some (Inr (), snd (cmds_parent h
                               (replace PrefabItem_IMPORT_NAMESPACE new_namespace root_node)
                               grp' t4)))
   \<and> (cmds_listRelatives h s root_node = Some children
        \<and> cmds_parent h root_node (clustersFn_ROOT_GROUP h) s = (Inl e', u2) \<longrightarrow>
      PrefabClusterItem_load_root h root_node s = (Inl e', u2))"
proof (intro conjI impI allI)
  assume "cmds_objExists_raises h s group_name = Some m"
  then show "group_prefab h root_node group_name s = (Inl (RuntimeError m), s)"
    and "group_prefab_cluster h root_node group_name s = (Inl (RuntimeError m), s)"
    by (simp_all add: group_prefab_def group_prefab_cluster_def)
next
  assume "cmds_objExists_raises h s group_name = None \<and> \<not> cmds_objExists h s group_name
        \<and> cmds_createNode h ''transform'' group_name s = (Inl m', s1)"
  then show "group_prefab h root_node group_name s = (Inl (RuntimeError m'), s1)"
    and "group_prefab_cluster h root_node group_name s = (Inl (RuntimeError m'), s1)"
    by (simp_all add: group_prefab_def group_prefab_cluster_def)
next
  fix e s3
  assume a: "cmds_objExists_raises h s group_name = None
        \<and> (if \<not> cmds_objExists h s group_name
            then cmds_createNode h ''transform'' group_name s
            else (Inr group_name, s)) = (Inr grp, s2)"
    and p: "cmds_parent h root_node grp s2 = (Inl e, s3)"
  then show "group_prefab h root_node group_name s = (Inr False, s3)"
    and "group_prefab_cluster h root_node group_name s = (Inr False, s3)"
    by (simp_all add: group_prefab_def group_prefab_cluster_def)
next
  fix s3
  assume a: "cmds_objExists_raises h s group_name = None
        \<and> (if \<not> cmds_objExists h s group_name
            then cmds_createNode h ''transform'' group_name s
            else (Inr group_name, s)) = (Inr grp, s2)"
    and p: "cmds_parent h root_node grp s2 = (Inr (), s3)"
  then show "group_prefab h root_node group_name s = (Inr True, s3)"
    and "group_prefab_cluster h root_node group_name s = (Inr True, s3)"
    by (simp_all add: group_prefab_def group_prefab_cluster_def)
next
  assume a: "get_cache_from_root h s root_node = Inr cache_node
        \<and> new_namespace_of h root_node cache_node s = Some (Inr new_namespace, t2)
        \<and> swap_namespace h PrefabItem_IMPORT_NAMESPACE new_namespace t2 = (Inr (), t3)
        \<and> cmds_objExists_raises h t3 ''__Prefabs__'' = None
        \<and> (if \<not> cmds_objExists h t3 ''__Prefabs__''
            then cmds_createNode h ''transform'' ''__Prefabs__'' t3
            else (Inr ''__Prefabs__'', t3)) = (Inr grp', t4)"
  obtain r5 t5 where p: "cmds_parent h (replace PrefabItem_IMPORT_NAMESPACE new_namespace root_node)
                           grp' t4 = (r5, t5)"
    by (cases "cmds_parent h (replace PrefabItem_IMPORT_NAMESPACE new_namespace root_node) grp' t4")
  with a have "\<exists>b. group_prefab h (replace PrefabItem_IMPORT_NAMESPACE new_namespace root_node)
                  ''__Prefabs__'' t3 = (Inr b, t5)"
    by (cases r5) (auto simp: group_prefab_def)
  with a p show "PrefabItem_load_root h root_node s
        = Some (Inr (), snd (cmds_parent h
                               (replace PrefabItem_IMPORT_NAMESPACE new_namespace root_node)
                               grp' t4))"
    by (auto simp: PrefabItem_load_root_def Let_def)
next
  assume "cmds_listRelatives h s root_node = Some children
        \<and> cmds_parent h root_node (clustersFn_ROOT_GROUP h) s = (Inl e', u2)"
  then show "PrefabClusterItem_load_root h root_node s = (Inl e', u2)"
    by (simp add: PrefabClusterItem_load_root_def Let_def)
qed

theorem group_prefab_catches_parent_witness:
  "cmds_objExists_raises refusing_host library_scene [] = Some ''Invalid name''
   \<and> group_prefab refusing_host ''rig'' [] library_scene
       = (Inl (RuntimeError ''Invalid name''), library_scene)
   \<and> cmds_createNode refusing_host ''transform'' ''__Prefabs__'' library_scene
       = (Inl ''Cannot create node'', library_scene)
   \<and> group_prefab refusing_host ''rig'' ''__Prefabs__'' library_scene
       = (Inl (RuntimeError ''Cannot create node''), library_scene)
   \<and> cmds_createNode scene_host ''transform'' ''__Prefabs__'' library_scene
       = (Inr ''__Prefabs__'',
          library_scene\<lparr>sc_nodes := [(''PrefabClusters'', ''transform'', []),
                                      (''__Prefabs__'', ''transform'', [])]\<rparr>)
   \<and> group_prefab scene_host ''ghost'' ''__Prefabs__'' library_scene
       = (Inr False, library_scene\<lparr>sc_nodes := [(''PrefabClusters'', ''transform'', []),
                                                 (''__Prefabs__'', ''transform'', [])]\<rparr>)
   \<and> group_prefab_cluster scene_host ''ghost'' ''__Prefabs__'' library_scene
       = (Inr False, library_scene\<lparr>sc_nodes := [(''PrefabClusters'', ''transform'', []),
                                                 (''__Prefabs__'', ''transform'', [])]\<rparr>)
   \<and> (\<exists>s4. PrefabItem_load_root scene_host ''PREFAB_IMPORT_TEMP:prefab'' hero_imported
             = Some (Inr (), s4))"
proof -
  let ?s' = "library_scene\<lparr>sc_nodes := [(''PrefabClusters'', ''transform'', []),
                                      (''__Prefabs__'', ''transform'', [])]\<rparr>"
  have r0: "cmds_objExists_raises refusing_host library_scene [] = Some ''Invalid name''"
    by (simp add: refusing_host_def scene_host_def)
  have g0: "group_prefab refusing_host ''rig'' [] library_scene
       = (Inl (RuntimeError ''Invalid name''), library_scene)"
    using group_prefab_catches_parent[where h = refusing_host and s = library_scene
            and group_name = "[]" and m = "''Invalid name''" and root_node = "''rig''",
            THEN conjunct1] r0 by simp
  have g1: "group_prefab refusing_host ''rig'' ''__Prefabs__'' library_scene
       = (Inl (RuntimeError ''Cannot create node''), library_scene)"
    using group_prefab_catches_parent[where h = refusing_host and s = library_scene
            and group_name = "''__Prefabs__''" and root_node = "''rig''"
            and m' = "''Cannot create node''" and ?s1.0 = library_scene,
            THEN conjunct2, THEN conjunct1] refusing_create by simp
  have n: "cmds_objExists_raises scene_host library_scene ''__Prefabs__'' = None"
    and a: "\<not> cmds_objExists scene_host library_scene ''__Prefabs__''"
    by (simp_all add: scene_eval library_scene_def)
  have c: "cmds_createNode scene_host ''transform'' ''__Prefabs__'' library_scene = (Inr ''__Prefabs__'', ?s')"
    by (simp add: scene_eval library_scene_def)
  have p: "cmds_parent scene_host ''ghost'' ''__Prefabs__'' ?s'
           = (Inl (RuntimeError ''No object matches name''), ?s')"
    by (simp add: scene_eval library_scene_def)
  have pre: "cmds_objExists_raises scene_host library_scene ''__Prefabs__'' = None
        \<and> (if \<not> cmds_objExists scene_host library_scene ''__Prefabs__''
            then cmds_createNode scene_host ''transform'' ''__Prefabs__'' library_scene
            else (Inr ''__Prefabs__'', library_scene)) = (Inr ''__Prefabs__'', ?s')"
    using n a c by simp
  note G = group_prefab_catches_parent[where h = scene_host and s = library_scene
             and group_name = "''__Prefabs__''" and root_node = "''ghost''"
             and grp = "''__Prefabs__''" and ?s2.0 = ?s',
             THEN conjunct2, THEN conjunct2, THEN conjunct1, THEN mp, OF pre, THEN conjunct1,
             THEN spec, THEN spec, THEN mp, OF p]
  have t3n: "cmds_objExists_raises scene_host
               (snd (swap_namespace scene_host PrefabItem_IMPORT_NAMESPACE ''hero_000''
                       (hero_imported\<lparr>sc_current := '':''\<rparr>))) ''__Prefabs__'' = None"
    by (simp add: scene_host_def)
  have mk: "\<And>name t. cmds_createNode scene_host ''transform'' name t
                 = (Inr name, t\<lparr>sc_nodes := sc_nodes t @ [(name, ''transform'', [])]\<rparr>)"
    by (simp add: scene_host_def)
  have "\<exists>grp' t4. (if \<not> cmds_objExists scene_host
               (snd (swap_namespace scene_host PrefabItem_IMPORT_NAMESPACE ''hero_000''
                       (hero_imported\<lparr>sc_current := '':''\<rparr>))) ''__Prefabs__''
            then cmds_createNode scene_host ''transform'' ''__Prefabs__''
                   (snd (swap_namespace scene_host PrefabItem_IMPORT_NAMESPACE ''hero_000''
                       (hero_imported\<lparr>sc_current := '':''\<rparr>)))
            else (Inr ''__Prefabs__'',
                  snd (swap_namespace scene_host PrefabItem_IMPORT_NAMESPACE ''hero_000''
                       (hero_imported\<lparr>sc_current := '':''\<rparr>)))) = (Inr grp', t4)"
    by (simp add: mk)
  then obtain grp' t4 where cr: "(if \<not> cmds_objExists scene_host
               (snd (swap_namespace scene_host PrefabItem_IMPORT_NAMESPACE ''hero_000''
                       (hero_imported\<lparr>sc_current := '':''\<rparr>))) ''__Prefabs__''
            then cmds_createNode scene_host ''transform'' ''__Prefabs__''
                   (snd (swap_namespace scene_host PrefabItem_IMPORT_NAMESPACE ''hero_000''
                       (hero_imported\<lparr>sc_current := '':''\<rparr>)))
            else (Inr ''__Prefabs__'',
                  snd (swap_namespace scene_host PrefabItem_IMPORT_NAMESPACE ''hero_000''
                       (hero_imported\<lparr>sc_current := '':''\<rparr>)))) = (Inr grp', t4)"
    by blast
  have load: "\<exists>s4. PrefabItem_load_root scene_host ''PREFAB_IMPORT_TEMP:prefab'' hero_imported
             = Some (Inr (), s4)"
    using group_prefab_catches_parent[where h = scene_host and s = hero_imported
            and root_node = "''PREFAB_IMPORT_TEMP:prefab''"
            and cache_node = "''PREFAB_IMPORT_TEMP:c027_shepherd_m00_tall_dancing_03''"
            and new_namespace = "''hero_000''"
            and ?t2.0 = "hero_imported\<lparr>sc_current := '':''\<rparr>"
            and ?t3.0 = "snd (swap_namespace scene_host PrefabItem_IMPORT_NAMESPACE ''hero_000''
                    (hero_imported\<lparr>sc_current := '':''\<rparr>))"
            and grp' = grp' and ?t4.0 = t4,
            THEN conjunct2, THEN conjunct2, THEN conjunct2, THEN conjunct1]
          hero_cache hero_namespace hero_swap t3n cr
    by blast
  from r0 g0 refusing_create g1 c G load show ?thesis by simp
qed

text \<open>
  C10 as stated fails: where the host refuses to create the group node, \<open>group_prefab\<close>
  raises; and loading a cluster into a scene that has no cluster group raises the
  exception of the reparenting.
\<close>

theorem group_prefab_raises_counterexample:
  "\<not> cmds_objExists refusing_host library_scene ''__Prefabs__''
   \<and> group_prefab refusing_host ''PREFAB_IMPORT_TEMP:prefab'' ''__Prefabs__'' library_scene
       = (Inl (RuntimeError ''Cannot create node''), library_scene)
   \<and> \<not> cmds_objExists scene_host bare_scene (clustersFn_ROOT_GROUP scene_host)
   \<and> fst (PrefabClusterItem_load_imported scene_host ''crowd'' [] bare_scene)
       = Inl (RuntimeError ''No object matches name'')"
proof (intro conjI)
  show "\<not> cmds_objExists refusing_host library_scene ''__Prefabs__''"
    by (simp add: refusing_host_def scene_eval library_scene_def)
  show "group_prefab refusing_host ''PREFAB_IMPORT_TEMP:prefab'' ''__Prefabs__'' library_scene
       = (Inl (RuntimeError ''Cannot create node''), library_scene)"
    by (simp add: group_prefab_def refusing_host_def scene_eval library_scene_def)
  show "\<not> cmds_objExists scene_host bare_scene (clustersFn_ROOT_GROUP scene_host)"
    by (simp add: bare_scene_def scene_eval library_scene_def)
  show "fst (PrefabClusterItem_load_imported scene_host ''crowd'' [] bare_scene)
       = Inl (RuntimeError ''No object matches name'')"
    by (simp add: crowd_bare_load)
qed

text \<open>
  C1 as stated fails for \<open>get_namespace_from_cache\<close>: with the used-set
  \<open>{base_000, base_001}\<close> and no node called \<open>prefab\<close> in either namespace it returns
  \<open>base_000\<close>, a member of the used-set.
\<close>

theorem cache_allocator_taken_counterexample:
  "cmds_namespaceInfo scene_host taken_scene
     = [''c027_shepherd_m00_tall_dancing_000'', ''c027_shepherd_m00_tall_dancing_001'']
   \<and> get_namespace_from_cache scene_host taken_scene ''c027_shepherd_m00_tall_dancing_03''
     = Some (Inr ''c027_shepherd_m00_tall_dancing_000'')
   \<and> ''c027_shepherd_m00_tall_dancing_000'' \<in> set (cmds_namespaceInfo scene_host taken_scene)"
proof (intro conjI)
  show "cmds_namespaceInfo scene_host taken_scene
     = [''c027_shepherd_m00_tall_dancing_000'', ''c027_shepherd_m00_tall_dancing_001'']"
    by (simp add: scene_host_def taken_scene_def)
  then show "''c027_shepherd_m00_tall_dancing_000'' \<in> set (cmds_namespaceInfo scene_host taken_scene)"
    by simp
  have "namespace_from_cache_loop (cmds_objExists scene_host taken_scene)
          (''c027'', ''shepherd'', ''m00'', ''tall'', ''dancing'') 0
        = Some (''c027'' @ ''_'' @ ''shepherd'' @ ''_'' @ ''m00'' @ ''_'' @ ''tall'' @ ''_''
                @ ''dancing'' @ ''_'' @ format_03d 0)"
    by (rule cache_loop_reaches)
       (simp_all add: format_03d_small scene_host_def taken_scene_def sc_objExists_def)
  then show "get_namespace_from_cache scene_host taken_scene ''c027_shepherd_m00_tall_dancing_03''
     = Some (Inr ''c027_shepherd_m00_tall_dancing_000'')"
    by (simp add: get_namespace_from_cache_def cache_fields_example format_03d_small)
qed

end
